theory Spec2Isabelle
  imports Main
begin

section \<open>JavaScript values of \<open>communication.js\<close>\<close>

text \<open>
  An error object: its constructor name, its optional numeric \<open>code\<close> and its
  \<open>message\<close>. \<open>new Error(m)\<close> has no code; a \<open>TypeError\<close> is what the
  engine throws when a property of \<open>undefined\<close> is read or \<open>undefined\<close> is called.
\<close>

datatype js_error = JsError (name: string) (code: "int option") (message: string)

definition newError :: "string \<Rightarrow> js_error" where
  "newError m = JsError ''Error'' None m"

definition typeError :: "string \<Rightarrow> js_error" where
  "typeError what = JsError ''TypeError'' None (what @ '' is undefined'')"

text \<open>
  The template literal \<open>`${reason}`\<close> of an error object
  (\<open>Error.prototype.toString\<close>): the name alone when the message is empty, the message
  alone when the name is empty.
\<close>

definition error_toString :: "js_error \<Rightarrow> string" where
  "error_toString e =
     (if name e = [] then message e
      else if message e = [] then name e
      else name e @ '': '' @ message e)"

text \<open>
  A promise as the caller observes it once the run is over: still pending (it never
  settles), resolved with a value, or rejected with an error.
\<close>

datatype 'a promise = Pending | Resolved 'a | Rejected js_error

text \<open>
  A JavaScript object with string keys, in insertion order: \<open>o[k]\<close> is \<open>obj_get\<close>,
  \<open>o[k] = v\<close> is \<open>obj_set\<close>, \<open>delete o[k]\<close> is \<open>obj_delete\<close>,
  \<open>Object.keys\<close> and \<open>Object.values\<close> read the entries in order. The keys here
  are the ids that the SDK generates, none of them written like an array index, so the
  order of the keys is the order of insertion.
\<close>

type_synonym 'v obj = "(string \<times> 'v) list"

definition obj_get :: "'v obj \<Rightarrow> string \<Rightarrow> 'v option" where
  "obj_get xs k = map_of xs k"

fun obj_set :: "string \<Rightarrow> 'v \<Rightarrow> 'v obj \<Rightarrow> 'v obj" where
  "obj_set k v [] = [(k, v)]"
| "obj_set k v ((k', v') # xs) = (if k' = k then (k, v) # xs else (k', v') # obj_set k v xs)"

definition obj_delete :: "string \<Rightarrow> 'v obj \<Rightarrow> 'v obj" where
  "obj_delete k xs = filter (\<lambda>kv. fst kv \<noteq> k) xs"

definition obj_keys :: "'v obj \<Rightarrow> string list" where
  "obj_keys xs = map fst xs"

definition obj_values :: "'v obj \<Rightarrow> 'v list" where
  "obj_values xs = map snd xs"

section \<open>SDK objects\<close>

record stream =
  stream_id :: string
  videoType :: string
  connection_data :: "string option"

record publisher =
  pub_id :: string

record subscriber =
  sub_id :: string
  sub_stream :: stream

text \<open>UI properties (\<open>callProperties\<close>, \<open>screenProperties\<close>): property name and value.\<close>

type_synonym props = "string obj"

definition defaultCallProperties :: props where
  "defaultCallProperties =
     [(''insertMode'', ''append''), (''width'', ''100%''), (''height'', ''100%''),
      (''showControls'', ''false''), (''style.buttonDisplayMode'', ''off'')]"

text \<open>\<open>Object.assign({}, a, b)\<close>: the properties of \<open>a\<close>, overwritten and extended by \<open>b\<close>.\<close>

definition object_assign :: "'v obj \<Rightarrow> 'v obj \<Rightarrow> 'v obj" where
  "object_assign a b = fold (\<lambda>kv acc. obj_set (fst kv) (snd kv) acc) b a"

section \<open>The state collaborator (\<open>./state\<close>)\<close>

text \<open>
  The registries of the state module: publishers and subscribers by kind and id, the
  streams by id, and the stream map from the id of a subscribed stream to the id of its
  subscriber.
\<close>

record registry =
  pub_camera :: "publisher obj"
  pub_screen :: "publisher obj"
  sub_camera :: "subscriber obj"
  sub_screen :: "subscriber obj"
  streams :: "stream obj"
  streamMap :: "string obj"

record pubsub =
  ps_pub_camera :: "publisher obj"
  ps_pub_screen :: "publisher obj"
  ps_sub_camera :: "subscriber obj"
  ps_sub_screen :: "subscriber obj"

text \<open>
  Modelled from the spec: \<open>state.getPubSub\<close> is not under src/. The spec calls its
  result the aggregated publisher/subscriber state: the publisher and the subscriber
  registry, each a mapping from stream kind (camera, screen) to a mapping of id to handle.
\<close>

definition getPubSub :: "registry \<Rightarrow> pubsub" where
  "getPubSub r = \<lparr>ps_pub_camera = pub_camera r, ps_pub_screen = pub_screen r,
                  ps_sub_camera = sub_camera r, ps_sub_screen = sub_screen r\<rparr>"

text \<open>
  Modelled from the spec: \<open>state.addPublisher\<close> is not under src/. The spec: publish
  registers the publisher as the active camera publisher; the registry maps the stream
  kind to a mapping of id to handle.
\<close>

definition addPublisher :: "string \<Rightarrow> publisher \<Rightarrow> registry \<Rightarrow> registry" where
  "addPublisher type p r =
     (if type = ''camera'' then r\<lparr>pub_camera := obj_set (pub_id p) p (pub_camera r)\<rparr>
      else if type = ''screen'' then r\<lparr>pub_screen := obj_set (pub_id p) p (pub_screen r)\<rparr>
      else r)"

text \<open>
  Modelled from the spec: \<open>state.addSubscriber\<close> is not under src/. The spec:
  subscribe registers the subscriber (under the kind of its stream), and a stream that is
  already subscribed is recognised by its stream id, so the stream id is entered in the
  stream map.
\<close>

definition addSubscriber :: "subscriber \<Rightarrow> registry \<Rightarrow> registry" where
  "addSubscriber s r =
     (let type = videoType (sub_stream s);
          r1 = r\<lparr>streamMap := obj_set (stream_id (sub_stream s)) (sub_id s) (streamMap r)\<rparr>
      in if type = ''camera'' then r1\<lparr>sub_camera := obj_set (sub_id s) s (sub_camera r1)\<rparr>
         else if type = ''screen'' then r1\<lparr>sub_screen := obj_set (sub_id s) s (sub_screen r1)\<rparr>
         else r1)"

text \<open>
  Modelled from the spec: \<open>state.removeSubscriber\<close> is not under src/. The spec:
  unsubscribe removes the subscriber from the registry.
\<close>

definition removeSubscriber :: "subscriber \<Rightarrow> registry \<Rightarrow> registry" where
  "removeSubscriber s r =
     r\<lparr>sub_camera := obj_delete (sub_id s) (sub_camera r),
       sub_screen := obj_delete (sub_id s) (sub_screen r)\<rparr>"

text \<open>
  Modelled from the spec: \<open>state.removeStream\<close> is not under src/. The spec: on
  remote stream destruction the stream is removed from the registry.
\<close>

definition removeStream :: "stream \<Rightarrow> registry \<Rightarrow> registry" where
  "removeStream s r = r\<lparr>streams := obj_delete (stream_id s) (streams r)\<rparr>"

text \<open>
  Modelled from the spec: \<open>state.removeAllPublishers\<close> and
  \<open>state.removeAllSubscribers\<close> are not under src/. The spec: endCall clears both
  registries.
\<close>

definition removeAllPublishers :: "registry \<Rightarrow> registry" where
  "removeAllPublishers r = r\<lparr>pub_camera := [], pub_screen := []\<rparr>"

definition removeAllSubscribers :: "registry \<Rightarrow> registry" where
  "removeAllSubscribers r = r\<lparr>sub_camera := [], sub_screen := []\<rparr>"

section \<open>Observable effects\<close>

datatype logAction = LogStartCall | LogEndCall | LogSubscribe | LogUnsubscribe

datatype logVariation = Attempt | Success | Fail

text \<open>The second argument of \<open>accPack.triggerEvent\<close>.\<close>

datatype payload =
    NoData
  | Message string
  | PubSubData pubsub
  | SubscriberData subscriber
  | SubscribedData subscriber registry

text \<open>
  What the module does to its collaborators, in the order it does it: calls of the
  logging module, events triggered and listeners registered on the event bus, and calls
  of the SDK (\<open>OT.initPublisher\<close> and the session's methods).
\<close>

datatype effect =
    Log logAction logVariation
  | LogError string
  | LogMessage string
  | Event string payload
  | Listen string string
  | InitPublisher string props
  | SessionPublish publisher
  | SessionUnpublish publisher
  | SessionSubscribe stream string props
  | SessionUnsubscribe subscriber

section \<open>The module's variables\<close>

text \<open>
  The module-level variables of \<open>communication.js\<close> (\<open>None\<close> is \<open>undefined\<close>,
  for \<open>connectionLimit\<close> also \<open>null\<close>), the registries of the state module, and the
  effects so far. \<open>streamContainers\<close> is the host's function from the role
  (\<open>publisher\<close>, \<open>subscriber\<close>), the stream kind and the connection data to a container.
  \<open>autoSubscribe\<close> is only read for its truth value, so \<open>undefined\<close> is \<open>False\<close>.
\<close>

record world =
  session :: "string option"
  accPack :: "string option"
  callProperties :: props
  screenProperties :: props
  streamContainers :: "(string \<Rightarrow> string \<Rightarrow> string option \<Rightarrow> string) option"
  autoSubscribe :: bool
  connectionLimit :: "int option"
  active :: bool
  registry :: registry
  trace :: "effect list"

definition emit :: "effect \<Rightarrow> world \<Rightarrow> world" where
  "emit e w = w\<lparr>trace := trace w @ [e]\<rparr>"

text \<open>
  What the SDK and the platform answer during one run:
  the callback of \<open>OT.initPublisher\<close> (\<open>None\<close>: never called; an error; or no error, with
  the publisher that \<open>OT.initPublisher\<close> returned); the id of the subscriber that
  \<open>session.subscribe\<close> returns for a stream; \<open>JSON.parse\<close> on the connection data
  (an error thrown, or the value, \<open>None\<close> for \<open>null\<close>); and
  the callbacks of \<open>session.subscribe\<close> in the order in which the SDK invokes them, each
  with the id of its stream and its error argument (\<open>None\<close>: no error). A subscription
  whose stream id never occurs there is never called back.
\<close>

record env =
  initPublisher_cb :: "(js_error + publisher) option"
  subscriber_of :: "stream \<Rightarrow> string"
  json_parse :: "string \<Rightarrow> js_error + string option"
  completions :: "(string \<times> js_error option) list"

section \<open>\<open>communication.js\<close>\<close>

definition triggerEvent :: "string \<Rightarrow> payload \<Rightarrow> world \<Rightarrow> js_error + world" where
  "triggerEvent event data w =
     (case accPack w of
        None \<Rightarrow> Inl (typeError ''accPack'')
      | Some _ \<Rightarrow> Inr (emit (Event event data) w))"

text \<open>
  \<open>Object.values(state.getStreams()).filter(s => s.videoType === 'camera')\<close>.
\<close>

definition cameraStreams :: "world \<Rightarrow> stream list" where
  "cameraStreams w = filter (\<lambda>s. videoType s = ''camera'') (obj_values (streams (registry w)))"

text \<open>\<open>!connectionLimit\<close> is true for \<open>null\<close>, \<open>undefined\<close> and \<open>0\<close>.\<close>

definition ableToJoin :: "world \<Rightarrow> bool" where
  "ableToJoin w =
     (case connectionLimit w of
        None \<Rightarrow> True
      | Some n \<Rightarrow>
          if n = 0 then True
          else int (length (cameraStreams w)) < n)"

text \<open>
  Modelled from the spec: \<open>logging.log\<close>, \<open>logging.message\<close> and
  \<open>logging.error\<close> are not under src/. The spec: failures and missing fields are
  logged, and a logged error does not abort. Each call is recorded and returns.
\<close>

definition logging_log :: "logAction \<Rightarrow> logVariation \<Rightarrow> world \<Rightarrow> world" where
  "logging_log a v w = emit (Log a v) w"

definition logging_message :: "string \<Rightarrow> world \<Rightarrow> world" where
  "logging_message m w = emit (LogMessage m) w"

definition logging_error :: "string \<Rightarrow> world \<Rightarrow> world" where
  "logging_error m w = emit (LogError m) w"

text \<open>
  Modelled from the spec: \<open>util.properCase\<close> is not under src/. The spec names the
  events \<open>subscribeToCamera\<close>, \<open>unsubscribeFromScreen\<close>, ... for the kinds
  \<open>camera\<close> and \<open>screen\<close>: the first letter of the kind in upper case.
\<close>

definition upper_char :: "char \<Rightarrow> char" where
  "upper_char c =
     (case map_of (zip ''abcdefghijklmnopqrstuvwxyz'' ''ABCDEFGHIJKLMNOPQRSTUVWXYZ'') c of
        Some u \<Rightarrow> u
      | None \<Rightarrow> c)"

definition properCase :: "string \<Rightarrow> string" where
  "properCase t = (case t of [] \<Rightarrow> [] | c # cs \<Rightarrow> upper_char c # cs)"

subsection \<open>\<open>createPublisher\<close> and \<open>publish\<close>\<close>

text \<open>
  \<open>createPublisher\<close>: a throw inside the promise's executor (calling an undefined
  \<open>streamContainers\<close>) rejects the promise; otherwise \<open>OT.initPublisher\<close> is called and
  its callback settles the promise. \<open>dom.element\<close> hands the container on.
\<close>

definition createPublisher :: "env \<Rightarrow> world \<Rightarrow> world \<times> publisher promise" where
  "createPublisher env w =
     (let props = callProperties w in
      case streamContainers w of
        None \<Rightarrow> (w, Rejected (typeError ''streamContainers''))
      | Some f \<Rightarrow>
          (let container = f ''publisher'' ''camera'' None;
               w1 = emit (InitPublisher container props) w
           in case initPublisher_cb env of
                None \<Rightarrow> (w1, Pending)
              | Some (Inl error) \<Rightarrow> (w1, Rejected error)
              | Some (Inr publisher) \<Rightarrow> (w1, Resolved publisher)))"

text \<open>
  The \<open>.catch\<close> handler of \<open>publish\<close>. When \<open>triggerEvent\<close> throws, \<open>reject\<close> is
  never reached and the promise of \<open>publish\<close> stays pending.
\<close>

definition publish_catch :: "js_error \<Rightarrow> world \<Rightarrow> world \<times> unit promise" where
  "publish_catch error w =
     (let w1 = logging_log LogStartCall Fail w;
          errorMessage =
            (if code error = Some 1010 then ''Check your network connection''
             else message error)
      in case triggerEvent ''error'' (Message errorMessage) w1 of
           Inl _ \<Rightarrow> (w1, Pending)
         | Inr w2 \<Rightarrow> (w2, Rejected error))"

text \<open>
  \<open>publish\<close>: the \<open>.then\<close> handler registers the publisher and publishes it; a throw
  in it (an undefined \<open>session\<close>) is caught by the \<open>.catch\<close> handler, as a rejection
  of \<open>createPublisher\<close> is.
\<close>

definition publish :: "env \<Rightarrow> world \<Rightarrow> world \<times> unit promise" where
  "publish env w =
     (case createPublisher env w of
        (w1, Pending) \<Rightarrow> (w1, Pending)
      | (w1, Resolved publisher) \<Rightarrow>
          (let w2 = w1\<lparr>registry := addPublisher ''camera'' publisher (registry w1)\<rparr>
           in case session w2 of
                None \<Rightarrow> publish_catch (typeError ''session'') w2
              | Some _ \<Rightarrow>
                  (logging_log LogStartCall Success (emit (SessionPublish publisher) w2),
                   Resolved ()))
      | (w1, Rejected error) \<Rightarrow> publish_catch error w1)"

subsection \<open>\<open>subscribe\<close> and \<open>unsubscribe\<close>\<close>

text \<open>
  One call of \<open>subscribe\<close> is either settled when the executor returns, or waits for
  the callback of \<open>session.subscribe\<close>, with the subscriber that call returned.
\<close>

datatype slot = Settled "unit promise" | Awaiting stream subscriber

text \<open>
  \<open>JSON.parse(path(['connection', 'data'], stream) || null)\<close>: no data, or the
  empty string, parse to \<open>null\<close>; \<open>JSON.parse\<close> throws on other text that is not JSON.
\<close>

definition connectionData :: "env \<Rightarrow> stream \<Rightarrow> js_error + string option" where
  "connectionData env st =
     (case connection_data st of
        None \<Rightarrow> Inr None
      | Some d \<Rightarrow>
          if d = [] then Inr None
          else json_parse env d)"

text \<open>
  The truth value of \<open>streamMap[stream.id]\<close>, an id or \<open>undefined\<close>: a string is
  true unless it is empty.
\<close>

definition truthy :: "string option \<Rightarrow> bool" where
  "truthy x = (case x of None \<Rightarrow> False | Some v \<Rightarrow> v \<noteq> [])"

text \<open>
  The executor of \<open>subscribe\<close>. A throw in the executor rejects the promise.
  \<open>dom.query\<close> hands the container on.
\<close>

definition subscribe_start :: "env \<Rightarrow> stream \<Rightarrow> world \<Rightarrow> world \<times> slot" where
  "subscribe_start env st w =
     (let w1 = logging_log LogSubscribe Attempt w;
          streamMap = streamMap (registry w1)
      in if truthy (obj_get streamMap (stream_id st))
         then (w1, Settled (Resolved ()))
         else
          (let type = videoType st in
           case connectionData env st of
             Inl e \<Rightarrow> (w1, Settled (Rejected e))
           | Inr data \<Rightarrow>
               (case streamContainers w1 of
                  None \<Rightarrow> (w1, Settled (Rejected (typeError ''streamContainers'')))
                | Some f \<Rightarrow>
                    (let container = f ''subscriber'' type data;
                         options = (if type = ''camera'' then callProperties w1
                                    else screenProperties w1)
                     in case session w1 of
                          None \<Rightarrow> (w1, Settled (Rejected (typeError ''session'')))
                        | Some _ \<Rightarrow>
                            (emit (SessionSubscribe st container options) w1,
                             Awaiting st \<lparr>sub_id = subscriber_of env st, sub_stream = st\<rparr>)))))"

text \<open>
  The callback of \<open>session.subscribe\<close>, called with an error or without. A throw of
  \<open>triggerEvent\<close> leaves the callback before \<open>resolve\<close>: the promise stays pending.
\<close>

definition subscribe_callback ::
  "stream \<Rightarrow> subscriber \<Rightarrow> js_error option \<Rightarrow> world \<Rightarrow> world \<times> unit promise" where
  "subscribe_callback st subscriber error w =
     (case error of
        Some e \<Rightarrow> (logging_log LogSubscribe Fail w, Rejected e)
      | None \<Rightarrow>
          (let type = videoType st;
               w1 = w\<lparr>registry := addSubscriber subscriber (registry w)\<rparr>
           in case triggerEvent (''subscribeTo'' @ properCase type)
                     (SubscribedData subscriber (registry w1)) w1 of
                Inl _ \<Rightarrow> (w1, Pending)
              | Inr w2 \<Rightarrow>
                  (case (if type = ''screen''
                         then triggerEvent ''startViewingSharedScreen'' (SubscriberData subscriber) w2
                         else Inr w2) of
                     Inl _ \<Rightarrow> (w2, Pending)
                   | Inr w3 \<Rightarrow> (logging_log LogSubscribe Success w3, Resolved ()))))"

text \<open>
  \<open>subscribe\<close> called on its own: the executor, then the first callback the SDK makes
  for this stream, if it makes one.
\<close>

definition subscribe :: "env \<Rightarrow> stream \<Rightarrow> world \<Rightarrow> world \<times> unit promise" where
  "subscribe env st w =
     (case subscribe_start env st w of
        (w1, Settled p) \<Rightarrow> (w1, p)
      | (w1, Awaiting s subscriber) \<Rightarrow>
          (case map_of (completions env) (stream_id s) of
             None \<Rightarrow> (w1, Pending)
           | Some error \<Rightarrow> subscribe_callback s subscriber error w1))"

definition unsubscribe :: "subscriber \<Rightarrow> world \<Rightarrow> world \<times> unit promise" where
  "unsubscribe subscriber w =
     (let w1 = logging_log LogUnsubscribe Attempt w in
      case session w1 of
        None \<Rightarrow> (w1, Rejected (typeError ''session''))
      | Some _ \<Rightarrow>
          (let w2 = emit (SessionUnsubscribe subscriber) w1;
               w3 = w2\<lparr>registry := removeSubscriber subscriber (registry w2)\<rparr>
           in (logging_log LogUnsubscribe Success w3, Resolved ())))"

subsection \<open>\<open>validateOptions\<close>, the listeners and \<open>init\<close>\<close>

text \<open>
  The options object of \<open>init\<close>. A collaborator that is missing is \<open>None\<close>; of
  \<open>publishers\<close>, \<open>subscribers\<close> and \<open>streams\<close> the module reads only whether they
  are there. \<open>opt_autoSubscribe\<close> is \<open>None\<close> when the object has no such property.
\<close>

record options =
  opt_session :: "string option"
  opt_publishers :: bool
  opt_subscribers :: bool
  opt_streams :: bool
  opt_accPack :: "string option"
  opt_streamContainers :: "(string \<Rightarrow> string \<Rightarrow> string option \<Rightarrow> string) option"
  opt_callProperties :: "props option"
  opt_screenProperties :: "props option"
  opt_connectionLimit :: "int option"
  opt_autoSubscribe :: "bool option"

definition requiredOptions :: "string list" where
  "requiredOptions = [''session'', ''publishers'', ''subscribers'', ''streams'', ''accPack'']"

text \<open>The truth value of \<open>options[option]\<close> for a required option.\<close>

definition has_option :: "options \<Rightarrow> string \<Rightarrow> bool" where
  "has_option opts option =
     (if option = ''session'' then opt_session opts \<noteq> None
      else if option = ''publishers'' then opt_publishers opts
      else if option = ''subscribers'' then opt_subscribers opts
      else if option = ''streams'' then opt_streams opts
      else if option = ''accPack'' then opt_accPack opts \<noteq> None
      else False)"

definition check_required :: "options \<Rightarrow> string \<Rightarrow> world \<Rightarrow> world" where
  "check_required opts option w =
     (if \<not> has_option opts option then logging_error (option @ '' is a required option.'') w
      else w)"

text \<open>
  \<open>x || d\<close> on an optional object, and on the optional number \<open>connectionLimit\<close>,
  where \<open>0\<close> is false as well.
\<close>

definition or_default :: "'a option \<Rightarrow> 'a \<Rightarrow> 'a" where
  "or_default x d = (case x of None \<Rightarrow> d | Some v \<Rightarrow> v)"

definition number_or_null :: "int option \<Rightarrow> int option" where
  "number_or_null x = (case x of None \<Rightarrow> None | Some n \<Rightarrow> if n = 0 then None else Some n)"

definition validateOptions :: "options \<Rightarrow> world \<Rightarrow> world" where
  "validateOptions opts w =
     (let w1 = fold (check_required opts) requiredOptions w
      in w1\<lparr>session := opt_session opts,
            accPack := opt_accPack opts,
            streamContainers := opt_streamContainers opts,
            callProperties := or_default (opt_callProperties opts) defaultCallProperties,
            connectionLimit := number_or_null (opt_connectionLimit opts),
            autoSubscribe := (case opt_autoSubscribe opts of Some b \<Rightarrow> b | None \<Rightarrow> True),
            screenProperties := or_default (opt_screenProperties opts)
              (object_assign defaultCallProperties [(''videoSource'', ''window'')])\<rparr>)"

text \<open>\<open>accPack.on\<close> throws a \<open>TypeError\<close> when \<open>accPack\<close> is undefined.\<close>

definition createEventListeners :: "world \<Rightarrow> js_error + world" where
  "createEventListeners w =
     (case accPack w of
        None \<Rightarrow> Inl (typeError ''accPack'')
      | Some _ \<Rightarrow>
          Inr (emit (Listen ''streamDestroyed'' ''onStreamDestroyed'')
                (emit (Listen ''streamCreated'' ''onStreamCreated'') w)))"

text \<open>A throw inside the executor of \<open>init\<close> rejects its promise.\<close>

definition init :: "options \<Rightarrow> world \<Rightarrow> world \<times> unit promise" where
  "init opts w =
     (let w1 = validateOptions opts w in
      case createEventListeners w1 of
        Inl e \<Rightarrow> (w1, Rejected e)
      | Inr w2 \<Rightarrow> (w2, Resolved ()))"

subsection \<open>The stream events\<close>

text \<open>
  \<open>active && autoSubscribe && subscribe(stream)\<close>: the result is \<open>None\<close> when the
  conjunction stops before \<open>subscribe\<close>, otherwise the promise of \<open>subscribe\<close>.
\<close>

definition onStreamCreated :: "env \<Rightarrow> stream \<Rightarrow> world \<Rightarrow> world \<times> unit promise option" where
  "onStreamCreated env st w =
     (if active w \<and> autoSubscribe w
      then (case subscribe env st w of (w1, p) \<Rightarrow> (w1, Some p))
      else (w, None))"

text \<open>
  \<open>onStreamDestroyed\<close> returns the world it leaves and the error it throws, if any.
\<close>

definition onStreamDestroyed :: "stream \<Rightarrow> world \<Rightarrow> world \<times> js_error option" where
  "onStreamDestroyed st w =
     (let w1 = w\<lparr>registry := removeStream st (registry w)\<rparr>;
          type = videoType st
      in case (if type = ''screen'' then triggerEvent ''endViewingSharedScreen'' NoData w1
               else Inr w1) of
           Inl e \<Rightarrow> (w1, Some e)
         | Inr w2 \<Rightarrow>
             (case triggerEvent (''unsubscribeFrom'' @ properCase type)
                     (PubSubData (getPubSub (registry w2))) w2 of
                Inl e \<Rightarrow> (w2, Some e)
              | Inr w3 \<Rightarrow> (w3, None)))"

subsection \<open>\<open>startCall\<close>\<close>

text \<open>
  \<open>Object.keys(streams).map(id => subscribe(streams[id]))\<close>: the executors run one after
  the other, over the values of the stream registry in the order of its keys. The SDK
  calls back later, so the stream map is the same for all of them.
\<close>

fun issue_all :: "env \<Rightarrow> stream list \<Rightarrow> world \<Rightarrow> world \<times> slot list" where
  "issue_all env [] w = (w, [])"
| "issue_all env (st # sts) w =
     (case subscribe_start env st w of
        (w1, sl) \<Rightarrow> (case issue_all env sts w1 of (w2, sls) \<Rightarrow> (w2, sl # sls)))"

text \<open>The first rejected promise of the list, and whether all are resolved.\<close>

fun first_rejection :: "slot list \<Rightarrow> js_error option" where
  "first_rejection [] = None"
| "first_rejection (Settled (Rejected e) # sls) = Some e"
| "first_rejection (sl # sls) = first_rejection sls"

definition all_resolved :: "slot list \<Rightarrow> bool" where
  "all_resolved sls = list_all (\<lambda>sl. sl = Settled (Resolved ())) sls"

text \<open>
  One run of the subscriptions of \<open>startCall\<close>: the world, the promises of the
  subscriptions, whether \<open>Promise.all\<close> has settled (and its handler has run), and the
  promise that \<open>startCall\<close> returned.
\<close>

record call_run =
  run_world :: world
  run_slots :: "slot list"
  run_handled :: bool
  run_result :: "pubsub promise"

definition failed_message :: "js_error \<Rightarrow> string" where
  "failed_message reason = ''Failed to subscribe to all existing streams: '' @ error_toString reason"

text \<open>
  The \<open>.then\<close> handler of \<open>Promise.all\<close>. A throw of \<open>triggerEvent\<close> goes to the
  \<open>.catch\<close> handler behind it, which logs it; \<open>resolve\<close> is then never reached.
\<close>

definition on_all_resolved :: "world \<Rightarrow> world \<times> pubsub promise" where
  "on_all_resolved w =
     (let pubSubData = getPubSub (registry w) in
      case triggerEvent ''startCall'' (PubSubData pubSubData) w of
        Inl e \<Rightarrow> (logging_message (failed_message e) w, Pending)
      | Inr w1 \<Rightarrow> (w1\<lparr>active := True\<rparr>, Resolved pubSubData))"

text \<open>
  \<open>Promise.all(initialSubscriptions).then(...).catch(...)\<close>, looked at after the
  executors have run and after every callback: \<open>Promise.all\<close> rejects with the first
  rejection (the \<open>.catch\<close> handler logs it and settles nothing), and resolves once every
  promise is resolved (the \<open>.then\<close> handler runs). It settles once.
\<close>

definition settle_check :: "call_run \<Rightarrow> call_run" where
  "settle_check r =
     (if run_handled r then r
      else case first_rejection (run_slots r) of
             Some reason \<Rightarrow>
               r\<lparr>run_world := logging_message (failed_message reason) (run_world r),
                 run_handled := True\<rparr>
           | None \<Rightarrow>
               if all_resolved (run_slots r)
               then (case on_all_resolved (run_world r) of
                       (w1, p) \<Rightarrow> r\<lparr>run_world := w1, run_handled := True, run_result := p\<rparr>)
               else r)"

text \<open>
  The SDK calls back the subscription of the stream with this id: the first promise that
  still waits for it. An id that no promise waits for changes nothing.
\<close>

fun fire :: "string \<Rightarrow> js_error option \<Rightarrow> world \<Rightarrow> slot list \<Rightarrow> world \<times> slot list" where
  "fire sid error w [] = (w, [])"
| "fire sid error w (Awaiting st subscriber # sls) =
     (if stream_id st = sid
      then (case subscribe_callback st subscriber error w of (w1, p) \<Rightarrow> (w1, Settled p # sls))
      else (case fire sid error w sls of (w1, sls1) \<Rightarrow> (w1, Awaiting st subscriber # sls1)))"
| "fire sid error w (Settled p # sls) =
     (case fire sid error w sls of (w1, sls1) \<Rightarrow> (w1, Settled p # sls1))"

definition deliver :: "string \<times> js_error option \<Rightarrow> call_run \<Rightarrow> call_run" where
  "deliver c r =
     (case fire (fst c) (snd c) (run_world r) (run_slots r) of
        (w1, sls) \<Rightarrow> settle_check (r\<lparr>run_world := w1, run_slots := sls\<rparr>))"

text \<open>
  The \<open>.then\<close> handler of \<open>publish()\<close> in \<open>startCall\<close>: the executors, the first look
  at \<open>Promise.all\<close>, then the callbacks in the order of the SDK.
\<close>

definition subscribe_initial :: "env \<Rightarrow> world \<Rightarrow> call_run" where
  "subscribe_initial env w =
     (let sts = obj_values (streams (registry w)) in
      case issue_all env sts w of
        (w1, sls) \<Rightarrow>
          fold deliver (completions env)
            (settle_check \<lparr>run_world = w1, run_slots = sls, run_handled = False,
                           run_result = Pending\<rparr>))"

definition limit_message :: string where
  "limit_message = ''Session has reached its connection limit''"

text \<open>
  \<open>startCall\<close>. A throw of \<open>triggerEvent\<close> in the executor rejects the promise with
  the thrown error. There is no rejection handler behind \<open>publish()\<close>: when it rejects,
  or never settles, nothing settles the promise of \<open>startCall\<close>.
\<close>

definition startCall :: "env \<Rightarrow> world \<Rightarrow> world \<times> pubsub promise" where
  "startCall env w =
     (let w1 = logging_log LogStartCall Attempt w in
      if \<not> ableToJoin w1
      then (case triggerEvent ''error'' (Message limit_message) w1 of
              Inl e \<Rightarrow> (w1, Rejected e)
            | Inr w2 \<Rightarrow> (logging_log LogStartCall Fail w2, Rejected (newError limit_message)))
      else (case publish env w1 of
              (w2, Resolved _) \<Rightarrow>
                (let r = subscribe_initial env w2 in (run_world r, run_result r))
            | (w2, _) \<Rightarrow> (w2, Pending)))"

subsection \<open>\<open>endCall\<close>\<close>

text \<open>
  \<open>Object.keys(o).forEach(id => unpublish(o[id]))\<close> over the values of \<open>o\<close>;
  \<open>session.unpublish\<close> throws a \<open>TypeError\<close> when \<open>session\<close> is undefined.
\<close>

fun unpublish_each :: "publisher list \<Rightarrow> world \<Rightarrow> world \<times> js_error option" where
  "unpublish_each [] w = (w, None)"
| "unpublish_each (p # ps) w =
     (case session w of
        None \<Rightarrow> (w, Some (typeError ''session''))
      | Some _ \<Rightarrow> unpublish_each ps (emit (SessionUnpublish p) w))"

text \<open>\<open>endCall\<close> returns the world it leaves and the error it throws, if any.\<close>

definition endCall :: "world \<Rightarrow> world \<times> js_error option" where
  "endCall w =
     (let w1 = logging_log LogEndCall Attempt w;
          publishers = getPubSub (registry w1)
      in case unpublish_each (obj_values (ps_pub_camera publishers)) w1 of
           (w2, Some e) \<Rightarrow> (w2, Some e)
         | (w2, None) \<Rightarrow>
             (case unpublish_each (obj_values (ps_pub_screen publishers)) w2 of
                (w3, Some e) \<Rightarrow> (w3, Some e)
              | (w3, None) \<Rightarrow>
                  (let w4 = w3\<lparr>registry := removeAllPublishers (registry w3)\<rparr>;
                       w5 = w4\<lparr>registry := removeAllSubscribers (registry w4)\<rparr>;
                       w6 = w5\<lparr>active := False\<rparr>
                   in (logging_log LogEndCall Success w6, None))))"

section \<open>Example inputs\<close>

text \<open>
  The module as it is loaded: nothing assigned, no call active, empty registries; and an
  options object with every collaborator.
\<close>

definition no_registry :: registry where
  "no_registry = \<lparr>pub_camera = [], pub_screen = [], sub_camera = [], sub_screen = [],
                    streams = [], streamMap = []\<rparr>"

definition loaded_module :: world where
  "loaded_module =
     \<lparr>session = None, accPack = None, callProperties = [], screenProperties = [],
      streamContainers = None, autoSubscribe = False, connectionLimit = None,
      active = False, registry = no_registry, trace = []\<rparr>"

definition full_options :: options where
  "full_options =
     \<lparr>opt_session = Some ''session'', opt_publishers = True, opt_subscribers = True,
      opt_streams = True, opt_accPack = Some ''accPack'',
      opt_streamContainers = Some (\<lambda>role type data. ''#'' @ role @ ''-'' @ type),
      opt_callProperties = None, opt_screenProperties = None,
      opt_connectionLimit = None, opt_autoSubscribe = None\<rparr>"

definition ready_module :: world where
  "ready_module = fst (init full_options loaded_module)"

definition camera1 :: stream where
  "camera1 = \<lparr>stream_id = ''stream-1'', videoType = ''camera'', connection_data = None\<rparr>"

definition camera2 :: stream where
  "camera2 = \<lparr>stream_id = ''stream-2'', videoType = ''camera'', connection_data = None\<rparr>"

definition screen1 :: stream where
  "screen1 = \<lparr>stream_id = ''stream-3'', videoType = ''screen'', connection_data = None\<rparr>"

text \<open>An SDK that creates the publisher and completes every subscription it is given here.\<close>

definition sdk_ok :: env where
  "sdk_ok =
     \<lparr>initPublisher_cb = Some (Inr \<lparr>pub_id = ''publisher-1''\<rparr>),
      subscriber_of = (\<lambda>st. ''subscriber-of-'' @ stream_id st),
      json_parse = (\<lambda>text. Inr (Some text)),
      completions = [(''stream-3'', None), (''stream-1'', None), (''stream-2'', None)]\<rparr>"

text \<open>An SDK whose \<open>OT.initPublisher\<close> calls back with error code 1010.\<close>

definition sdk_no_camera :: env where
  "sdk_no_camera =
     sdk_ok\<lparr>initPublisher_cb := Some (Inl (JsError ''OT_Error'' (Some 1010) ''ICE workflow failed''))\<rparr>"

text \<open>
  The module after \<open>init\<close> with a limit of two: once with two camera streams and a
  screen stream known, once with one camera stream and a screen stream.
\<close>

definition two_cameras_one_screen :: registry where
  "two_cameras_one_screen =
     no_registry\<lparr>streams :=
       [(''stream-1'', camera1), (''stream-3'', screen1), (''stream-2'', camera2)]\<rparr>"

definition limited_module :: world where
  "limited_module =
     (fst (init (full_options\<lparr>opt_connectionLimit := Some 2\<rparr>) loaded_module))
       \<lparr>registry := two_cameras_one_screen\<rparr>"

definition limited_one_camera :: world where
  "limited_one_camera =
     (fst (init (full_options\<lparr>opt_connectionLimit := Some 2\<rparr>) loaded_module))
       \<lparr>registry := no_registry\<lparr>streams := [(''stream-1'', camera1), (''stream-3'', screen1)]\<rparr>\<rparr>"

text \<open>A call in progress with one camera and one screen publisher.\<close>

definition in_call :: world where
  "in_call =
     ready_module
       \<lparr>active := True,
        registry := no_registry
          \<lparr>pub_camera := [(''publisher-1'', \<lparr>pub_id = ''publisher-1''\<rparr>)],
           pub_screen := [(''publisher-2'', \<lparr>pub_id = ''publisher-2''\<rparr>)],
           streams := [(''stream-3'', screen1)]\<rparr>\<rparr>"

text \<open>
  Two remote streams known, a camera and a screen; and an SDK that completes the
  subscription of the screen and fails the one of the camera.
\<close>

definition camera_and_screen :: world where
  "camera_and_screen =
     ready_module
       \<lparr>registry := no_registry\<lparr>streams := [(''stream-1'', camera1), (''stream-3'', screen1)]\<rparr>\<rparr>"

definition sdk_camera_fails :: env where
  "sdk_camera_fails =
     sdk_ok\<lparr>completions :=
       [(''stream-3'', None),
        (''stream-1'', Some (JsError ''OT_Error'' (Some 1501) ''Subscribe failed''))]\<rparr>"

text \<open>
  The module after an \<open>init\<close> whose options lack the session, and that module after a
  call of \<open>startCall\<close>.
\<close>

definition no_session_module :: world where
  "no_session_module = fst (init (full_options\<lparr>opt_session := None\<rparr>) loaded_module)"

definition after_failed_start :: world where
  "after_failed_start = fst (startCall sdk_ok no_session_module)"

text \<open>
  An SDK that has not called back on any subscription; and the module with an empty id in
  the stream map under the id of the first camera stream.
\<close>

definition sdk_silent :: env where
  "sdk_silent = sdk_ok\<lparr>completions := []\<rparr>"

definition empty_id_module :: world where
  "empty_id_module =
     ready_module\<lparr>registry := no_registry\<lparr>streamMap := [(''stream-1'', [])]\<rparr>\<rparr>"

section \<open>Vocabulary of the statements\<close>

text \<open>The calls of \<open>session.unpublish\<close> among the effects.\<close>

definition unpublish_calls :: "effect list \<Rightarrow> effect list" where
  "unpublish_calls t = filter (\<lambda>e. case e of SessionUnpublish _ \<Rightarrow> True | _ \<Rightarrow> False) t"


text \<open>The number of calls of \<open>session.subscribe\<close> among the effects.\<close>

definition sdk_subscribe_calls :: "effect list \<Rightarrow> nat" where
  "sdk_subscribe_calls t =
     length (filter (\<lambda>e. case e of SessionSubscribe _ _ _ \<Rightarrow> True | _ \<Rightarrow> False) t)"

text \<open>The errors that \<open>validateOptions\<close> logs: one for each required option that is missing.\<close>

definition missing_errors :: "options \<Rightarrow> effect list" where
  "missing_errors opts =
     map (\<lambda>option. LogError (option @ '' is a required option.''))
       (filter (\<lambda>option. \<not> has_option opts option) requiredOptions)"

text \<open>The errors of the rejected promises among the subscriptions.\<close>

definition rejections :: "slot list \<Rightarrow> js_error list" where
  "rejections sls =
     List.map_filter (\<lambda>sl. case sl of Settled (Rejected e) \<Rightarrow> Some e | _ \<Rightarrow> None) sls"

text \<open>Whether a \<open>startCall\<close> event is among the effects.\<close>

definition startCall_emitted :: "effect list \<Rightarrow> bool" where
  "startCall_emitted t =
     list_ex (\<lambda>e. case e of Event n _ \<Rightarrow> n = ''startCall'' | _ \<Rightarrow> False) t"

text \<open>
  Whether the effects hold the message that \<open>startCall\<close> logs for a failed subscription,
  for the error of one of the rejected subscriptions.
\<close>

definition failure_logged :: "slot list \<Rightarrow> effect list \<Rightarrow> bool" where
  "failure_logged sls t =
     list_ex (\<lambda>e. LogMessage (failed_message e) \<in> set t) (rejections sls)"

text \<open>The effects of a run from world \<open>w\<close> to world \<open>w'\<close>.\<close>

definition effects_since :: "world \<Rightarrow> world \<Rightarrow> effect list" where
  "effects_since w w' = drop (length (trace w)) (trace w')"

text \<open>
  The promises of the initial subscriptions of \<open>startCall\<close>, as they are when the run
  is over.
\<close>

definition initial_subscriptions :: "env \<Rightarrow> world \<Rightarrow> slot list" where
  "initial_subscriptions env w =
     run_slots (subscribe_initial env (fst (publish env (logging_log LogStartCall Attempt w))))"

text \<open>
  A step from \<open>w\<close> to \<open>w1\<close> that keeps the event bus and the active flag and only adds
  effects, none of them a \<open>startCall\<close> event.
\<close>

definition quiet :: "world \<Rightarrow> world \<Rightarrow> bool" where
  "quiet w w1 \<longleftrightarrow>
     accPack w1 = accPack w \<and> active w1 = active w \<and>
     (\<exists>t. trace w1 = trace w @ t \<and> \<not> startCall_emitted t)"

text \<open>
  The invariant of a run of the initial subscriptions, for the effects \<open>base\<close> before
  the call, the active flag \<open>act\<close> before the call and the event bus \<open>bus\<close>.
\<close>

definition run_inv :: "effect list \<Rightarrow> bool \<Rightarrow> string option \<Rightarrow> call_run \<Rightarrow> bool" where
  "run_inv base act bus r \<longleftrightarrow>
     accPack (run_world r) = bus \<and>
     run_handled r = (first_rejection (run_slots r) \<noteq> None \<or> all_resolved (run_slots r)) \<and>
     (\<exists>t. trace (run_world r) = base @ t \<and>
          (first_rejection (run_slots r) \<noteq> None \<longrightarrow> failure_logged (run_slots r) t) \<and>
          (case run_result r of
             Pending \<Rightarrow>
               active (run_world r) = act \<and> \<not> startCall_emitted t \<and>
               (all_resolved (run_slots r) \<longrightarrow> bus = None)
           | Resolved ps \<Rightarrow>
               all_resolved (run_slots r) \<and> active (run_world r) \<and>
               ps = getPubSub (registry (run_world r)) \<and>
               t \<noteq> [] \<and> last t = Event ''startCall'' (PubSubData ps)
           | Rejected e \<Rightarrow> False))"

section \<open>Basic facts\<close>

lemma properCase_screen: "properCase ''screen'' = ''Screen''"
  by (simp add: properCase_def upper_char_def)

lemma properCase_camera: "properCase ''camera'' = ''Camera''"
  by (simp add: properCase_def upper_char_def)

lemma emit_fields [simp]:
  "session (emit e w) = session w"
  "accPack (emit e w) = accPack w"
  "callProperties (emit e w) = callProperties w"
  "screenProperties (emit e w) = screenProperties w"
  "streamContainers (emit e w) = streamContainers w"
  "autoSubscribe (emit e w) = autoSubscribe w"
  "connectionLimit (emit e w) = connectionLimit w"
  "active (emit e w) = active w"
  "registry (emit e w) = registry w"
  "trace (emit e w) = trace w @ [e]"
  by (simp_all add: emit_def)

lemmas logging_defs = logging_log_def logging_message_def logging_error_def

lemma ableToJoin_cong:
  "connectionLimit w' = connectionLimit w \<Longrightarrow> streams (registry w') = streams (registry w)
   \<Longrightarrow> ableToJoin w' = ableToJoin w"
  by (simp add: ableToJoin_def cameraStreams_def split: option.splits)

lemma triggerEvent_Some:
  "accPack w = Some a \<Longrightarrow> triggerEvent ev d w = Inr (emit (Event ev d) w)"
  by (simp add: triggerEvent_def)

lemma triggerEvent_None:
  "accPack w = None \<Longrightarrow> triggerEvent ev d w = Inl (typeError ''accPack'')"
  by (simp add: triggerEvent_def)

section \<open>The promise of \<open>startCall\<close> is rejected only by the limit check\<close>

lemma on_all_resolved_not_rejected: "on_all_resolved w = (w1, p) \<Longrightarrow> p \<noteq> Rejected e"
  by (auto simp add: on_all_resolved_def Let_def split: sum.splits)

lemma settle_check_not_rejected:
  "run_result r \<noteq> Rejected e \<Longrightarrow> run_result (settle_check r) \<noteq> Rejected e"
  by (auto simp add: settle_check_def split: option.splits prod.splits
      dest: on_all_resolved_not_rejected)

lemma deliver_not_rejected:
  "run_result r \<noteq> Rejected e \<Longrightarrow> run_result (deliver c r) \<noteq> Rejected e"
  by (auto simp add: deliver_def split: prod.splits intro!: settle_check_not_rejected)

lemma fold_deliver_not_rejected:
  "run_result r \<noteq> Rejected e \<Longrightarrow> run_result (fold deliver cs r) \<noteq> Rejected e"
  by (induction cs arbitrary: r) (auto simp: deliver_not_rejected)

lemma subscribe_initial_not_rejected: "run_result (subscribe_initial env w) \<noteq> Rejected e"
  by (auto simp add: subscribe_initial_def Let_def split: prod.splits
      intro!: fold_deliver_not_rejected settle_check_not_rejected)

lemma startCall_joined_not_rejected:
  "ableToJoin w \<Longrightarrow> snd (startCall env w) \<noteq> Rejected e"
  using subscribe_initial_not_rejected
  by (auto simp add: startCall_def Let_def logging_defs ableToJoin_cong[of "emit x w" w for x]
      split: prod.splits promise.splits)

section \<open>The stored connection limit\<close>

lemma validateOptions_limit:
  "connectionLimit (validateOptions opts w) = number_or_null (opt_connectionLimit opts)"
  by (simp add: validateOptions_def Let_def)

lemma init_limit:
  "connectionLimit (fst (init opts w)) = number_or_null (opt_connectionLimit opts)"
  by (auto simp add: init_def Let_def createEventListeners_def validateOptions_limit
      split: option.splits)

text \<open>
  C10. A connection limit option of 0 (like a missing one) is stored by \<open>init\<close> as
  \<open>null\<close>. In every later state \<open>w'\<close> that holds the limit stored by \<open>init\<close>,
  whatever its registries, \<open>ableToJoin\<close> is true and \<open>startCall\<close> does not reject with
  the connection-limit error.
\<close>

theorem zero_limit_is_no_limit:
  assumes "opt_connectionLimit opts = Some 0 \<or> opt_connectionLimit opts = None"
    and "connectionLimit w' = connectionLimit (fst (init opts w))"
  shows "connectionLimit (fst (init opts w)) = None \<and> ableToJoin w' \<and>
         snd (startCall env w') \<noteq> Rejected (newError limit_message)"
proof -
  have stored: "connectionLimit (fst (init opts w)) = None"
    using assms(1) by (auto simp add: init_limit number_or_null_def)
  with assms(2) have able: "ableToJoin w'"
    by (simp add: ableToJoin_def)
  from able have "snd (startCall env w') \<noteq> Rejected (newError limit_message)"
    by (rule startCall_joined_not_rejected)
  with stored able show ?thesis by simp
qed

theorem zero_limit_is_no_limit_witness:
  "opt_connectionLimit (full_options\<lparr>opt_connectionLimit := Some 0\<rparr>) = Some 0 \<and>
   connectionLimit (fst (init (full_options\<lparr>opt_connectionLimit := Some 0\<rparr>) loaded_module)) = None \<and>
   ableToJoin ((fst (init (full_options\<lparr>opt_connectionLimit := Some 0\<rparr>) loaded_module))
      \<lparr>registry := no_registry\<lparr>streams := [(''stream-1'', camera1)]\<rparr>\<rparr>) \<and>
   snd (startCall sdk_ok ((fst (init (full_options\<lparr>opt_connectionLimit := Some 0\<rparr>) loaded_module))
      \<lparr>registry := no_registry\<lparr>streams := [(''stream-1'', camera1)]\<rparr>\<rparr>))
     \<noteq> Rejected (newError limit_message)"
  using zero_limit_is_no_limit [of "full_options\<lparr>opt_connectionLimit := Some 0\<rparr>"
      "(fst (init (full_options\<lparr>opt_connectionLimit := Some 0\<rparr>) loaded_module))
         \<lparr>registry := no_registry\<lparr>streams := [(''stream-1'', camera1)]\<rparr>\<rparr>"
      loaded_module sdk_ok]
  by (simp add: full_options_def)

section \<open>\<open>publish\<close>\<close>

lemma createPublisher_emit:
  "snd (createPublisher env (emit x w)) = snd (createPublisher env w)"
  by (simp add: createPublisher_def Let_def split: option.splits sum.splits)

lemma createPublisher_fields [simp]:
  "session (fst (createPublisher env w)) = session w"
  "accPack (fst (createPublisher env w)) = accPack w"
  "active (fst (createPublisher env w)) = active w"
  by (simp_all add: createPublisher_def Let_def split: option.splits sum.splits)

lemma publish_catch_active: "active (fst (publish_catch e w)) = active w"
  by (simp add: publish_catch_def Let_def triggerEvent_def logging_defs split: option.splits)

lemma publish_active: "active (fst (publish env w)) = active w"
proof (cases "createPublisher env w")
  case (Pair w1 p)
  then have "active w1 = active w"
    using createPublisher_fields(3)[of env w] by simp
  with Pair show ?thesis
    by (cases p)
      (auto simp add: publish_def Let_def publish_catch_active logging_defs split: option.splits)
qed

lemma publish_log:
  "snd (publish env (logging_log a v w)) = snd (publish env w)"
  by (auto simp add: publish_def createPublisher_def Let_def logging_defs publish_catch_def
      triggerEvent_def split: option.splits sum.splits)

lemma ableToJoin_log: "ableToJoin (logging_log a v w) = ableToJoin w"
  by (simp add: logging_defs ableToJoin_def cameraStreams_def split: option.splits)

lemma publish_rejected_creation:
  assumes "snd (createPublisher env w) = Rejected e" and "accPack w \<noteq> None"
  shows "publish env w =
           (emit (Event ''error''
                    (Message (if code e = Some 1010 then ''Check your network connection''
                              else message e)))
              (logging_log LogStartCall Fail (fst (createPublisher env w))),
            Rejected e)"
proof -
  obtain w1 where w1: "createPublisher env w = (w1, Rejected e)"
    using assms(1) by (cases "createPublisher env w") simp
  have "accPack w1 = accPack w"
    using createPublisher_fields(2)[of env w] w1 by simp
  with assms(2) obtain a where "accPack w1 = Some a" by auto
  then show ?thesis
    using w1 by (simp add: publish_def publish_catch_def Let_def triggerEvent_def logging_defs)
qed

text \<open>
  C5. When the creation of the publisher fails with error \<open>e\<close> (in a module that has its
  event bus), \<open>publish\<close> logs the failure, emits one \<open>error\<close> event whose message is
  \<open>Check your network connection\<close> if the code of \<open>e\<close> is 1010 and the message of
  \<open>e\<close> otherwise, and rejects with \<open>e\<close>. In \<open>startCall\<close>, past the limit check, that
  event is the last effect.
\<close>

theorem publish_failure_message:
  assumes "snd (createPublisher env w) = Rejected e" and "accPack w \<noteq> None"
  shows "snd (publish env w) = Rejected e \<and>
         trace (fst (publish env w)) =
           trace (fst (createPublisher env w)) @
             [Log LogStartCall Fail,
              Event ''error''
                (Message (if code e = Some 1010 then ''Check your network connection''
                          else message e))] \<and>
         (if ableToJoin w
          then last (trace (fst (startCall env w))) =
                 Event ''error''
                   (Message (if code e = Some 1010 then ''Check your network connection''
                             else message e))
          else True)"
proof -
  let ?m = "Message (if code e = Some 1010 then ''Check your network connection'' else message e)"
  let ?w0 = "logging_log LogStartCall Attempt w"
  have here: "publish env w =
      (emit (Event ''error'' ?m) (logging_log LogStartCall Fail (fst (createPublisher env w))),
       Rejected e)"
    by (rule publish_rejected_creation[OF assms])
  have "snd (createPublisher env ?w0) = Rejected e"
    using assms(1) by (simp add: logging_defs createPublisher_emit)
  moreover have "accPack ?w0 \<noteq> None"
    using assms(2) by (simp add: logging_defs)
  ultimately have there: "publish env ?w0 =
      (emit (Event ''error'' ?m) (logging_log LogStartCall Fail (fst (createPublisher env ?w0))),
       Rejected e)"
    by (rule publish_rejected_creation)
  have "ableToJoin w \<Longrightarrow> last (trace (fst (startCall env w))) = Event ''error'' ?m"
    using there by (simp add: startCall_def Let_def ableToJoin_log)
  with here show ?thesis
    by (simp add: logging_defs)
qed

theorem publish_failure_message_witness:
  "snd (createPublisher sdk_no_camera ready_module) =
     Rejected (JsError ''OT_Error'' (Some 1010) ''ICE workflow failed'') \<and>
   accPack ready_module \<noteq> None \<and> ableToJoin ready_module \<and>
   snd (publish sdk_no_camera ready_module) =
     Rejected (JsError ''OT_Error'' (Some 1010) ''ICE workflow failed'') \<and>
   last (trace (fst (startCall sdk_no_camera ready_module))) =
     Event ''error'' (Message ''Check your network connection'')"
proof -
  have h1: "snd (createPublisher sdk_no_camera ready_module) =
      Rejected (JsError ''OT_Error'' (Some 1010) ''ICE workflow failed'')"
    by code_simp
  have h2: "accPack ready_module \<noteq> None" by code_simp
  have h3: "ableToJoin ready_module" by code_simp
  show ?thesis
    using h1 h2 h3 publish_failure_message [OF h1 h2] by simp
qed

text \<open>
  C9. When the limit check passes and \<open>publish\<close> rejects, the promise of \<open>startCall\<close>
  stays pending and the active flag is what it was.
\<close>

theorem startCall_hangs_when_publish_rejects:
  assumes "ableToJoin w" and "snd (publish env w) = Rejected e"
  shows "snd (startCall env w) = Pending \<and> active (fst (startCall env w)) = active w"
proof -
  let ?w1 = "logging_log LogStartCall Attempt w"
  have able: "ableToJoin ?w1"
    using assms(1) by (simp add: ableToJoin_log)
  have rej: "snd (publish env ?w1) = Rejected e"
    using assms(2) by (simp add: publish_log)
  obtain w2 where pub: "publish env ?w1 = (w2, Rejected e)"
    using rej by (cases "publish env ?w1") simp
  have act: "active w2 = active w"
    using publish_active[of env ?w1] pub by (simp add: logging_defs)
  from able pub act show ?thesis
    by (simp add: startCall_def Let_def)
qed

theorem startCall_hangs_when_publish_rejects_witness:
  "ableToJoin ready_module \<and>
   snd (publish sdk_no_camera ready_module) =
     Rejected (JsError ''OT_Error'' (Some 1010) ''ICE workflow failed'') \<and>
   snd (startCall sdk_no_camera ready_module) = Pending \<and>
   active (fst (startCall sdk_no_camera ready_module)) = active ready_module"
proof -
  have h1: "ableToJoin ready_module" by code_simp
  have h2: "snd (publish sdk_no_camera ready_module) =
      Rejected (JsError ''OT_Error'' (Some 1010) ''ICE workflow failed'')"
    by code_simp
  show ?thesis
    using h1 h2 startCall_hangs_when_publish_rejects [OF h1 h2] by simp
qed

section \<open>The connection limit\<close>

text \<open>
  C2. In a state \<open>w\<close> that holds the limit stored by \<open>init\<close> (and has its event bus):
  when a limit \<open>N\<close> is stored and at least \<open>N\<close> of the streams in the stream registry
  have the video type \<open>camera\<close> (streams of any other type do not count), \<open>startCall\<close>
  logs the attempt, emits the \<open>error\<close> event, logs the failure and rejects with the
  connection-limit error, and does nothing else (no publisher is created or published,
  the registries are as before); when fewer are camera streams, or no limit is stored, the
  check passes.
\<close>

theorem connection_limit_check:
  assumes "connectionLimit w = connectionLimit (fst (init opts w0))" and "accPack w \<noteq> None"
  shows "case connectionLimit w of
           None \<Rightarrow> ableToJoin w
         | Some N \<Rightarrow>
             if N \<le> int (length (filter (\<lambda>s. videoType s = ''camera'')
                                (map snd (streams (registry w)))))
             then startCall env w =
                    (logging_log LogStartCall Fail
                       (emit (Event ''error'' (Message ''Session has reached its connection limit''))
                          (logging_log LogStartCall Attempt w)),
                     Rejected (newError ''Session has reached its connection limit''))
             else ableToJoin w"
proof (cases "connectionLimit w")
  case None
  then show ?thesis by (simp add: ableToJoin_def)
next
  case (Some N)
  have "N \<noteq> 0"
    using Some assms(1)
    by (auto simp add: init_limit number_or_null_def split: option.splits if_splits)
  from assms(2) obtain a where a: "accPack w = Some a" by auto
  let ?cameras = "filter (\<lambda>s. videoType s = ''camera'') (map snd (streams (registry w)))"
  have count: "cameraStreams w = ?cameras"
    by (simp add: cameraStreams_def obj_values_def)
  show ?thesis
  proof (cases "N \<le> int (length ?cameras)")
    case True
    let ?w1 = "logging_log LogStartCall Attempt w"
    have "\<not> ableToJoin w"
      unfolding ableToJoin_def count using True Some \<open>N \<noteq> 0\<close> by simp
    then have "\<not> ableToJoin ?w1"
      by (simp add: ableToJoin_log)
    moreover have "accPack ?w1 = Some a" using a by (simp add: logging_defs)
    ultimately show ?thesis
      using Some True
      by (simp add: startCall_def Let_def triggerEvent_def limit_message_def)
  next
    case False
    have "ableToJoin w"
      unfolding ableToJoin_def count using False Some \<open>N \<noteq> 0\<close> by simp
    with False Some show ?thesis by simp
  qed
qed

theorem connection_limit_check_witness:
  "connectionLimit limited_module =
     connectionLimit (fst (init (full_options\<lparr>opt_connectionLimit := Some 2\<rparr>) loaded_module)) \<and>
   accPack limited_module \<noteq> None \<and>
   connectionLimit limited_module = Some 2 \<and>
   map videoType (map snd (streams (registry limited_module))) =
     [''camera'', ''screen'', ''camera''] \<and>
   snd (startCall sdk_ok limited_module) =
     Rejected (newError ''Session has reached its connection limit'') \<and>
   trace (fst (startCall sdk_ok limited_module)) =
     trace limited_module @
       [Log LogStartCall Attempt,
        Event ''error'' (Message ''Session has reached its connection limit''),
        Log LogStartCall Fail] \<and>
   connectionLimit limited_one_camera =
     connectionLimit (fst (init (full_options\<lparr>opt_connectionLimit := Some 2\<rparr>) loaded_module)) \<and>
   accPack limited_one_camera \<noteq> None \<and>
   connectionLimit limited_one_camera = Some 2 \<and>
   map videoType (map snd (streams (registry limited_one_camera))) = [''camera'', ''screen''] \<and>
   ableToJoin limited_one_camera"
proof -
  have h1: "connectionLimit limited_module =
      connectionLimit (fst (init (full_options\<lparr>opt_connectionLimit := Some 2\<rparr>) loaded_module))"
    by code_simp
  have h2: "accPack limited_module \<noteq> None" by code_simp
  have h3: "connectionLimit limited_module = Some 2" by code_simp
  have h4: "map snd (streams (registry limited_module)) = [camera1, screen1, camera2]"
    by code_simp
  have k1: "connectionLimit limited_one_camera =
      connectionLimit (fst (init (full_options\<lparr>opt_connectionLimit := Some 2\<rparr>) loaded_module))"
    by code_simp
  have k2: "accPack limited_one_camera \<noteq> None" by code_simp
  have k3: "connectionLimit limited_one_camera = Some 2" by code_simp
  have k4: "map snd (streams (registry limited_one_camera)) = [camera1, screen1]"
    by code_simp
  have types: "videoType camera1 = ''camera'' \<and> videoType camera2 = ''camera'' \<and>
      videoType screen1 = ''screen''"
    by code_simp
  show ?thesis
    using h1 h2 h3 h4 k1 k2 k3 k4 types
      connection_limit_check [OF h1 h2, of sdk_ok]
      connection_limit_check [OF k1 k2, of sdk_ok]
    by (simp add: logging_defs)
qed

section \<open>\<open>endCall\<close>\<close>

lemma unpublish_each_session:
  "session w = Some s \<Longrightarrow>
   unpublish_each ps w = (w\<lparr>trace := trace w @ map SessionUnpublish ps\<rparr>, None)"
proof (induction ps arbitrary: w)
  case Nil
  then show ?case by simp
next
  case (Cons p ps)
  have "session (emit (SessionUnpublish p) w) = Some s"
    using Cons.prems by simp
  from Cons.IH[OF this] Cons.prems show ?case
    by (simp add: emit_def)
qed

text \<open>
  C4, as the code has it. \<open>endCall\<close>, in a module that has its session or has no
  publisher registered, whatever else the registries and the active flag were: it returns
  normally, both publisher registries and both subscriber registries are empty afterwards,
  the active flag is false, and between the two log entries the session was asked to
  unpublish every camera publisher and every screen publisher that was registered.
\<close>

theorem endCall_clears_registries:
  assumes "session w \<noteq> None \<or>
           (pub_camera (registry w) = [] \<and> pub_screen (registry w) = [])"
  shows "snd (endCall w) = None \<and>
         pub_camera (registry (fst (endCall w))) = [] \<and>
         pub_screen (registry (fst (endCall w))) = [] \<and>
         sub_camera (registry (fst (endCall w))) = [] \<and>
         sub_screen (registry (fst (endCall w))) = [] \<and>
         \<not> active (fst (endCall w)) \<and>
         trace (fst (endCall w)) =
           trace w @ [Log LogEndCall Attempt]
             @ map SessionUnpublish (map snd (pub_camera (registry w)))
             @ map SessionUnpublish (map snd (pub_screen (registry w)))
             @ [Log LogEndCall Success]"
proof -
  let ?w1 = "logging_log LogEndCall Attempt w"
  let ?cams = "obj_values (pub_camera (registry w))"
  let ?scrs = "obj_values (pub_screen (registry w))"
  let ?w2 = "?w1\<lparr>trace := trace ?w1 @ map SessionUnpublish ?cams\<rparr>"
  let ?w3 = "?w2\<lparr>trace := trace ?w2 @ map SessionUnpublish ?scrs\<rparr>"
  have u: "unpublish_each ?cams ?w1 = (?w2, None) \<and> unpublish_each ?scrs ?w2 = (?w3, None)"
  proof (cases "session w")
    case (Some s)
    have s1: "session ?w1 = Some s" using Some by (simp add: logging_defs)
    have u1: "unpublish_each ?cams ?w1 = (?w2, None)"
      by (rule unpublish_each_session[OF s1])
    have s2: "session ?w2 = Some s" using s1 by simp
    have u2: "unpublish_each ?scrs ?w2 = (?w3, None)"
      by (rule unpublish_each_session[OF s2])
    from u1 u2 show ?thesis by simp
  next
    case None
    with assms have "?cams = [] \<and> ?scrs = []"
      by (simp add: obj_values_def)
    then show ?thesis by simp
  qed
  then have "endCall w =
          (logging_log LogEndCall Success
             (?w3\<lparr>registry := removeAllSubscribers (removeAllPublishers (registry ?w3)),
                   active := False\<rparr>), None)"
    by (simp add: endCall_def Let_def getPubSub_def logging_defs)
  then show ?thesis
    by (simp add: logging_defs removeAllSubscribers_def removeAllPublishers_def obj_values_def)
qed

theorem endCall_clears_registries_witness:
  "session in_call \<noteq> None \<and> active in_call \<and>
   snd (endCall in_call) = None \<and>
   pub_camera (registry (fst (endCall in_call))) = [] \<and>
   pub_screen (registry (fst (endCall in_call))) = [] \<and>
   \<not> active (fst (endCall in_call)) \<and>
   trace (fst (endCall in_call)) =
     trace in_call @
       [Log LogEndCall Attempt, SessionUnpublish \<lparr>pub_id = ''publisher-1''\<rparr>,
        SessionUnpublish \<lparr>pub_id = ''publisher-2''\<rparr>, Log LogEndCall Success] \<and>
   session no_session_module = None \<and>
   pub_camera (registry no_session_module) = [] \<and>
   pub_screen (registry no_session_module) = [] \<and>
   snd (endCall no_session_module) = None \<and>
   \<not> active (fst (endCall no_session_module))"
proof -
  have h: "session in_call \<noteq> None" by code_simp
  have a: "active in_call" by code_simp
  have c: "map snd (pub_camera (registry in_call)) = [\<lparr>pub_id = ''publisher-1''\<rparr>]" by code_simp
  have s: "map snd (pub_screen (registry in_call)) = [\<lparr>pub_id = ''publisher-2''\<rparr>]" by code_simp
  have n: "session no_session_module = None \<and> pub_camera (registry no_session_module) = [] \<and>
      pub_screen (registry no_session_module) = []"
    by code_simp
  show ?thesis
    using h a c s n
      endCall_clears_registries [of in_call]
      endCall_clears_registries [of no_session_module]
    by simp
qed

text \<open>
  C4 as stated fails in a module without its session that has a publisher registered.
  \<open>init\<close> without the session logs the error and resolves; \<open>startCall\<close> then
  registers the camera publisher before \<open>session.publish\<close> throws; and \<open>endCall\<close>
  throws at the first \<open>session.unpublish\<close>: the publisher stays registered and was not
  unpublished.
\<close>

theorem endCall_throws_without_session:
  "snd (init (full_options\<lparr>opt_session := None\<rparr>) loaded_module) = Resolved () \<and>
   pub_camera (registry after_failed_start) = [(''publisher-1'', \<lparr>pub_id = ''publisher-1''\<rparr>)] \<and>
   snd (endCall after_failed_start) = Some (typeError ''session'') \<and>
   pub_camera (registry (fst (endCall after_failed_start))) =
     [(''publisher-1'', \<lparr>pub_id = ''publisher-1''\<rparr>)] \<and>
   unpublish_calls (trace (fst (endCall after_failed_start))) = []"
  by code_simp

section \<open>The stream events\<close>

lemma obj_get_obj_delete: "obj_get (obj_delete k xs) k = None"
  by (induction xs) (auto simp add: obj_get_def obj_delete_def)

text \<open>
  C6. A \<open>streamDestroyed\<close> event, in a module that has its event bus: the handler
  returns normally, the stream is deleted from the stream registry, and the events emitted
  are \<open>endViewingSharedScreen\<close> if the stream is of kind \<open>screen\<close>, then
  \<open>unsubscribeFrom<Type>\<close> with the publisher/subscriber state; for a screen stream the
  latter is \<open>unsubscribeFromScreen\<close>.
\<close>

theorem onStreamDestroyed_events:
  assumes "accPack w \<noteq> None"
  shows "snd (onStreamDestroyed st w) = None \<and>
         streams (registry (fst (onStreamDestroyed st w))) =
           obj_delete (stream_id st) (streams (registry w)) \<and>
         obj_get (streams (registry (fst (onStreamDestroyed st w)))) (stream_id st) = None \<and>
         trace (fst (onStreamDestroyed st w)) =
           trace w
             @ (if videoType st = ''screen'' then [Event ''endViewingSharedScreen'' NoData] else [])
             @ [Event (''unsubscribeFrom'' @ properCase (videoType st))
                  (PubSubData (getPubSub (registry (fst (onStreamDestroyed st w)))))] \<and>
         (if videoType st = ''screen''
          then ''unsubscribeFrom'' @ properCase (videoType st) = ''unsubscribeFromScreen''
          else True)"
proof -
  from assms obtain a where a: "accPack w = Some a" by auto
  show ?thesis
    using a obj_get_obj_delete[of "stream_id st" "streams (registry w)"]
    by (simp add: onStreamDestroyed_def Let_def triggerEvent_def removeStream_def emit_def
        properCase_screen)
qed

theorem onStreamDestroyed_events_witness:
  "accPack in_call \<noteq> None \<and> videoType screen1 = ''screen'' \<and>
   snd (onStreamDestroyed screen1 in_call) = None \<and>
   streams (registry (fst (onStreamDestroyed screen1 in_call))) = [] \<and>
   trace (fst (onStreamDestroyed screen1 in_call)) =
     trace in_call @
       [Event ''endViewingSharedScreen'' NoData,
        Event ''unsubscribeFromScreen''
          (PubSubData (getPubSub (registry (fst (onStreamDestroyed screen1 in_call)))))]"
proof -
  have h: "accPack in_call \<noteq> None" by code_simp
  have k: "videoType screen1 = ''screen''" by code_simp
  have d: "obj_delete (stream_id screen1) (streams (registry in_call)) = []" by code_simp
  show ?thesis
    using h k d onStreamDestroyed_events [OF h, of screen1] by simp
qed

text \<open>
  C7. A \<open>streamCreated\<close> event calls \<open>subscribe\<close> exactly when the active flag and the
  auto-subscribe flag are both true: then the handler is that call of \<open>subscribe\<close>;
  otherwise it returns at once and has no effect.
\<close>

theorem onStreamCreated_subscribes_iff:
  "(snd (onStreamCreated env st w) \<noteq> None) = (active w \<and> autoSubscribe w) \<and>
   onStreamCreated env st w =
     (if active w \<and> autoSubscribe w
      then (fst (subscribe env st w), Some (snd (subscribe env st w)))
      else (w, None))"
  by (simp add: onStreamCreated_def split: prod.splits)

theorem onStreamCreated_subscribes_iff_witness:
  "active (in_call\<lparr>autoSubscribe := False\<rparr>) \<and>
   onStreamCreated sdk_ok camera1 (in_call\<lparr>autoSubscribe := False\<rparr>) =
     (in_call\<lparr>autoSubscribe := False\<rparr>, None) \<and>
   autoSubscribe ready_module \<and> \<not> active ready_module \<and>
   onStreamCreated sdk_ok camera1 ready_module = (ready_module, None) \<and>
   active in_call \<and> autoSubscribe in_call \<and>
   snd (onStreamCreated sdk_ok camera1 in_call) = Some (snd (subscribe sdk_ok camera1 in_call))"
proof -
  have a: "active (in_call\<lparr>autoSubscribe := False\<rparr>)" by code_simp
  have b: "autoSubscribe ready_module \<and> \<not> active ready_module" by code_simp
  have c: "active in_call \<and> autoSubscribe in_call" by code_simp
  show ?thesis
    using a b c
      onStreamCreated_subscribes_iff [of sdk_ok camera1 "in_call\<lparr>autoSubscribe := False\<rparr>"]
      onStreamCreated_subscribes_iff [of sdk_ok camera1 ready_module]
      onStreamCreated_subscribes_iff [of sdk_ok camera1 in_call]
    by simp
qed

section \<open>\<open>init\<close>\<close>

lemma fold_check_required:
  "fold (check_required opts) ks w =
     w\<lparr>trace := trace w @ map (\<lambda>option. LogError (option @ '' is a required option.''))
                         (filter (\<lambda>option. \<not> has_option opts option) ks)\<rparr>"
  by (induction ks arbitrary: w) (auto simp add: check_required_def logging_defs emit_def)

lemma validateOptions_trace:
  "trace (validateOptions opts w) = trace w @ missing_errors opts"
  by (simp add: validateOptions_def Let_def fold_check_required missing_errors_def)

lemma validateOptions_fields:
  "session (validateOptions opts w) = opt_session opts"
  "accPack (validateOptions opts w) = opt_accPack opts"
  "streamContainers (validateOptions opts w) = opt_streamContainers opts"
  "callProperties (validateOptions opts w) =
     or_default (opt_callProperties opts) defaultCallProperties"
  "autoSubscribe (validateOptions opts w) =
     (case opt_autoSubscribe opts of Some b \<Rightarrow> b | None \<Rightarrow> True)"
  "screenProperties (validateOptions opts w) =
     or_default (opt_screenProperties opts)
       (object_assign defaultCallProperties [(''videoSource'', ''window'')])"
  by (simp_all add: validateOptions_def Let_def)

text \<open>
  C8, as the code has it. \<open>init\<close> logs one error for each required option that is
  missing and assigns the module's variables from the options that are there (with the
  defaults for the optional ones). When the options hold the event bus \<open>accPack\<close>, it
  then registers the two stream listeners and resolves.
\<close>

theorem init_reports_missing_options:
  "session (fst (init opts w)) = opt_session opts \<and>
   accPack (fst (init opts w)) = opt_accPack opts \<and>
   streamContainers (fst (init opts w)) = opt_streamContainers opts \<and>
   callProperties (fst (init opts w)) =
     or_default (opt_callProperties opts) defaultCallProperties \<and>
   screenProperties (fst (init opts w)) =
     or_default (opt_screenProperties opts)
       (object_assign defaultCallProperties [(''videoSource'', ''window'')]) \<and>
   connectionLimit (fst (init opts w)) = number_or_null (opt_connectionLimit opts) \<and>
   autoSubscribe (fst (init opts w)) =
     (case opt_autoSubscribe opts of Some b \<Rightarrow> b | None \<Rightarrow> True) \<and>
   (if opt_accPack opts \<noteq> None
    then snd (init opts w) = Resolved () \<and>
         trace (fst (init opts w)) =
           trace w @ missing_errors opts
             @ [Listen ''streamCreated'' ''onStreamCreated'',
                Listen ''streamDestroyed'' ''onStreamDestroyed'']
    else trace (fst (init opts w)) = trace w @ missing_errors opts)"
proof (cases "opt_accPack opts")
  case None
  then have "init opts w = (validateOptions opts w, Rejected (typeError ''accPack''))"
    by (simp add: init_def Let_def createEventListeners_def validateOptions_fields)
  with None show ?thesis
    by (simp add: validateOptions_fields validateOptions_limit validateOptions_trace)
next
  case (Some a)
  then have "init opts w =
      (emit (Listen ''streamDestroyed'' ''onStreamDestroyed'')
         (emit (Listen ''streamCreated'' ''onStreamCreated'') (validateOptions opts w)),
       Resolved ())"
    by (simp add: init_def Let_def createEventListeners_def validateOptions_fields)
  with Some show ?thesis
    by (simp add: validateOptions_fields validateOptions_limit validateOptions_trace)
qed

theorem init_reports_missing_options_witness:
  "opt_accPack (full_options\<lparr>opt_session := None, opt_streams := False\<rparr>) \<noteq> None \<and>
   snd (init (full_options\<lparr>opt_session := None, opt_streams := False\<rparr>) loaded_module) =
     Resolved () \<and>
   session (fst (init (full_options\<lparr>opt_session := None, opt_streams := False\<rparr>) loaded_module)) =
     None \<and>
   trace (fst (init (full_options\<lparr>opt_session := None, opt_streams := False\<rparr>) loaded_module)) =
     [LogError ''session is a required option.'', LogError ''streams is a required option.'',
      Listen ''streamCreated'' ''onStreamCreated'',
      Listen ''streamDestroyed'' ''onStreamDestroyed'']"
proof -
  have a: "opt_accPack (full_options\<lparr>opt_session := None, opt_streams := False\<rparr>) \<noteq> None"
    by code_simp
  have m: "missing_errors (full_options\<lparr>opt_session := None, opt_streams := False\<rparr>) =
      [LogError ''session is a required option.'', LogError ''streams is a required option.'']"
    by code_simp
  have t: "trace loaded_module = []" by code_simp
  show ?thesis
    using a m t
      init_reports_missing_options
        [of "full_options\<lparr>opt_session := None, opt_streams := False\<rparr>" loaded_module]
    by simp
qed

text \<open>
  C8 as stated fails when \<open>accPack\<close> is the missing option: the error is logged and the
  variables are assigned, but \<open>accPack.on\<close> throws inside the executor, so the promise of
  \<open>init\<close> is rejected and no listener is registered.
\<close>

theorem init_rejects_without_accPack:
  "snd (init (full_options\<lparr>opt_accPack := None\<rparr>) loaded_module) =
     Rejected (typeError ''accPack'') \<and>
   trace (fst (init (full_options\<lparr>opt_accPack := None\<rparr>) loaded_module)) =
     [LogError ''accPack is a required option.'']"
  by code_simp

section \<open>\<open>subscribe\<close>\<close>

lemma obj_get_obj_set: "obj_get (obj_set k v xs) k = Some v"
  by (induction xs) (auto simp add: obj_get_def)

lemma subscribe_known:
  "truthy (obj_get (streamMap (registry w)) (stream_id st)) \<Longrightarrow>
   subscribe env st w = (logging_log LogSubscribe Attempt w, Resolved ())"
  by (simp add: subscribe_def subscribe_start_def Let_def logging_defs)

lemma streamMap_addSubscriber:
  "obj_get (streamMap (addSubscriber s r)) (stream_id (sub_stream s)) = Some (sub_id s)"
  by (simp add: addSubscriber_def Let_def obj_get_obj_set)

lemma subscribe_fresh:
  assumes "session w = Some s" "accPack w = Some a" "streamContainers w = Some f"
    "connectionData env st = Inr d" "map_of (completions env) (stream_id st) = Some None"
    "\<not> truthy (obj_get (streamMap (registry w)) (stream_id st))"
  shows "snd (subscribe env st w) = Resolved () \<and>
         obj_get (streamMap (registry (fst (subscribe env st w)))) (stream_id st) =
           Some (subscriber_of env st) \<and>
         sdk_subscribe_calls (trace (fst (subscribe env st w))) =
           sdk_subscribe_calls (trace w) + 1"
  using assms
    streamMap_addSubscriber[of "\<lparr>sub_id = subscriber_of env st, sub_stream = st\<rparr>" "registry w"]
  by (simp add: subscribe_def subscribe_start_def subscribe_callback_def Let_def logging_defs
      triggerEvent_def sdk_subscribe_calls_def)

text \<open>
  C3, as the code has it. A call of \<open>subscribe\<close> for a stream under whose id the stream
  map holds a non-empty id logs the attempt and resolves; it changes nothing else, calls no
  SDK method and emits no event, whatever the SDK would answer. And when the module has its
  collaborators and the SDK has completed the subscription of a stream without error, with
  a subscriber whose id is not empty, subscribing to the stream again resolves at once, and
  both calls together call \<open>session.subscribe\<close> once (not at all if the stream map held
  a non-empty id before).
\<close>

theorem subscribe_idempotent:
  "(truthy (obj_get (streamMap (registry w')) (stream_id st')) \<longrightarrow>
      subscribe env' st' w' = (logging_log LogSubscribe Attempt w', Resolved ())) \<and>
   (session w \<noteq> None \<and> accPack w \<noteq> None \<and> streamContainers w \<noteq> None \<and>
    connectionData env st = Inr d \<and> map_of (completions env) (stream_id st) = Some None \<and>
    subscriber_of env st \<noteq> [] \<longrightarrow>
      snd (subscribe env st w) = Resolved () \<and>
      subscribe env2 st (fst (subscribe env st w)) =
        (logging_log LogSubscribe Attempt (fst (subscribe env st w)), Resolved ()) \<and>
      sdk_subscribe_calls (trace (fst (subscribe env2 st (fst (subscribe env st w))))) =
        sdk_subscribe_calls (trace w) +
          (if truthy (obj_get (streamMap (registry w)) (stream_id st)) then 0 else 1))"
proof (intro conjI impI)
  assume "truthy (obj_get (streamMap (registry w')) (stream_id st'))"
  then show "subscribe env' st' w' = (logging_log LogSubscribe Attempt w', Resolved ())"
    by (rule subscribe_known)
next
  assume h: "session w \<noteq> None \<and> accPack w \<noteq> None \<and> streamContainers w \<noteq> None \<and>
    connectionData env st = Inr d \<and> map_of (completions env) (stream_id st) = Some None \<and>
    subscriber_of env st \<noteq> []"
  let ?w1 = "fst (subscribe env st w)"
  have first: "snd (subscribe env st w) = Resolved () \<and>
      truthy (obj_get (streamMap (registry ?w1)) (stream_id st)) \<and>
      sdk_subscribe_calls (trace ?w1) = sdk_subscribe_calls (trace w) +
          (if truthy (obj_get (streamMap (registry w)) (stream_id st)) then 0 else 1)"
  proof (cases "truthy (obj_get (streamMap (registry w)) (stream_id st))")
    case False
    with h subscribe_fresh[of w _ _ _ env st d] show ?thesis
      by (auto simp add: truthy_def)
  next
    case True
    then show ?thesis
      by (simp add: subscribe_known logging_defs sdk_subscribe_calls_def)
  qed
  then show "snd (subscribe env st w) = Resolved ()" by simp
  from first have "truthy (obj_get (streamMap (registry ?w1)) (stream_id st))" by simp
  then have second: "subscribe env2 st ?w1 = (logging_log LogSubscribe Attempt ?w1, Resolved ())"
    by (rule subscribe_known)
  then show "subscribe env2 st ?w1 = (logging_log LogSubscribe Attempt ?w1, Resolved ())" .
  from first second show "sdk_subscribe_calls (trace (fst (subscribe env2 st ?w1))) =
        sdk_subscribe_calls (trace w) +
          (if truthy (obj_get (streamMap (registry w)) (stream_id st)) then 0 else 1)"
    by (simp add: logging_defs sdk_subscribe_calls_def)
qed

theorem subscribe_idempotent_witness:
  "truthy (obj_get (streamMap (registry (fst (subscribe sdk_ok camera1 ready_module))))
     (stream_id camera1)) \<and>
   session ready_module \<noteq> None \<and> accPack ready_module \<noteq> None \<and>
   streamContainers ready_module \<noteq> None \<and>
   connectionData sdk_ok camera1 = Inr None \<and>
   map_of (completions sdk_ok) (stream_id camera1) = Some None \<and>
   subscriber_of sdk_ok camera1 \<noteq> [] \<and>
   snd (subscribe sdk_ok camera1 ready_module) = Resolved () \<and>
   snd (subscribe sdk_no_camera camera1 (fst (subscribe sdk_ok camera1 ready_module))) =
     Resolved () \<and>
   sdk_subscribe_calls
     (trace (fst (subscribe sdk_no_camera camera1 (fst (subscribe sdk_ok camera1 ready_module))))) = 1"
proof -
  have m: "truthy (obj_get (streamMap (registry (fst (subscribe sdk_ok camera1 ready_module))))
      (stream_id camera1))"
    by code_simp
  have h: "session ready_module \<noteq> None \<and> accPack ready_module \<noteq> None \<and>
      streamContainers ready_module \<noteq> None \<and> connectionData sdk_ok camera1 = Inr None \<and>
      map_of (completions sdk_ok) (stream_id camera1) = Some None \<and>
      subscriber_of sdk_ok camera1 \<noteq> []"
    by code_simp
  have z: "sdk_subscribe_calls (trace ready_module) = 0 \<and>
      \<not> truthy (obj_get (streamMap (registry ready_module)) (stream_id camera1))"
    by code_simp
  note both = subscribe_idempotent [of "fst (subscribe sdk_ok camera1 ready_module)" camera1
      sdk_no_camera ready_module sdk_ok camera1 None sdk_no_camera]
  from both h have twice:
    "snd (subscribe sdk_ok camera1 ready_module) = Resolved () \<and>
     subscribe sdk_no_camera camera1 (fst (subscribe sdk_ok camera1 ready_module)) =
       (logging_log LogSubscribe Attempt (fst (subscribe sdk_ok camera1 ready_module)),
        Resolved ()) \<and>
     sdk_subscribe_calls
       (trace (fst (subscribe sdk_no_camera camera1 (fst (subscribe sdk_ok camera1 ready_module))))) =
       sdk_subscribe_calls (trace ready_module) +
         (if truthy (obj_get (streamMap (registry ready_module)) (stream_id camera1))
          then 0 else 1)"
    by blast
  from twice have r1: "snd (subscribe sdk_ok camera1 ready_module) = Resolved ()"
    by (rule conjunct1)
  from twice have r2:
    "snd (subscribe sdk_no_camera camera1 (fst (subscribe sdk_ok camera1 ready_module))) =
       Resolved ()"
    by simp
  from twice[THEN conjunct2, THEN conjunct2] z have r3:
    "sdk_subscribe_calls
       (trace (fst (subscribe sdk_no_camera camera1 (fst (subscribe sdk_ok camera1 ready_module))))) = 1"
    by simp
  from m h r1 r2 r3 show ?thesis by blast
qed

text \<open>
  C3 as stated fails in two ways. A second call of \<open>subscribe\<close> for a stream, made while
  the SDK has not called back on the first, finds no entry in the stream map: both calls
  call \<open>session.subscribe\<close>, and neither has resolved. And a stream id that is in the
  stream map with an empty id is not taken for subscribed: \<open>session.subscribe\<close> is called.
\<close>

theorem subscribe_not_idempotent_before_callback:
  "sdk_subscribe_calls (trace ready_module) = 0 \<and>
   snd (subscribe sdk_silent camera1 ready_module) = Pending \<and>
   snd (subscribe sdk_silent camera1 (fst (subscribe sdk_silent camera1 ready_module))) =
     Pending \<and>
   sdk_subscribe_calls
     (trace (fst (subscribe sdk_silent camera1 (fst (subscribe sdk_silent camera1 ready_module))))) = 2 \<and>
   obj_get (streamMap (registry empty_id_module)) (stream_id camera1) = Some [] \<and>
   sdk_subscribe_calls (trace empty_id_module) = 0 \<and>
   sdk_subscribe_calls (trace (fst (subscribe sdk_ok camera1 empty_id_module))) = 1"
  by code_simp

section \<open>The initial subscriptions of \<open>startCall\<close>\<close>

lemma startCall_emitted_simps [simp]:
  "startCall_emitted [] = False"
  "startCall_emitted (e # t) =
     ((case e of Event n _ \<Rightarrow> n = ''startCall'' | _ \<Rightarrow> False) \<or> startCall_emitted t)"
  "startCall_emitted (t @ u) = (startCall_emitted t \<or> startCall_emitted u)"
  by (simp_all add: startCall_emitted_def)

lemma quiet_refl: "quiet w w"
  by (simp add: quiet_def)

lemma quiet_trans: "quiet w w1 \<Longrightarrow> quiet w1 w2 \<Longrightarrow> quiet w w2"
  by (auto simp add: quiet_def)

lemma quiet_emit: "\<not> startCall_emitted [e] \<Longrightarrow> quiet w (emit e w)"
  by (simp add: quiet_def)

lemma quiet_registry: "quiet w (w\<lparr>registry := r\<rparr>)"
  by (simp add: quiet_def)

lemma quiet_subscribe_start: "subscribe_start env st w = (w1, sl) \<Longrightarrow> quiet w w1"
  by (auto simp add: subscribe_start_def Let_def logging_defs quiet_def
      split: option.splits sum.splits if_splits)

lemma quiet_issue_all: "issue_all env sts w = (w1, sls) \<Longrightarrow> quiet w w1"
proof (induction sts arbitrary: w w1 sls)
  case Nil
  then show ?case by (simp add: quiet_refl)
next
  case (Cons st sts)
  obtain wa sl where a: "subscribe_start env st w = (wa, sl)"
    by (cases "subscribe_start env st w")
  obtain wb slb where b: "issue_all env sts wa = (wb, slb)"
    by (cases "issue_all env sts wa")
  from Cons.prems a b have "w1 = wb" by simp
  with quiet_subscribe_start[OF a] Cons.IH[OF b] show ?case
    by (auto intro: quiet_trans)
qed

lemma quiet_subscribe_callback:
  "subscribe_callback st sub err w = (w1, p) \<Longrightarrow> quiet w w1"
  by (auto simp add: subscribe_callback_def Let_def logging_defs quiet_def triggerEvent_def emit_def
      split: option.splits sum.splits if_splits)

lemma first_rejection_rejections:
  "first_rejection sls = (case rejections sls of [] \<Rightarrow> None | e # _ \<Rightarrow> Some e)"
  by (induction sls rule: first_rejection.induct)
    (simp_all add: rejections_def List.map_filter_simps split: promise.splits)

lemma all_resolved_no_rejections: "all_resolved sls \<Longrightarrow> rejections sls = []"
  by (induction sls) (auto simp add: all_resolved_def rejections_def List.map_filter_simps)

lemma fire_all_resolved: "all_resolved sls \<Longrightarrow> fire sid err w sls = (w, sls)"
  by (induction sls) (auto simp add: all_resolved_def)

lemma fire_quiet: "fire sid err w sls = (w1, sls1) \<Longrightarrow> quiet w w1"
proof (induction sid err w sls arbitrary: w1 sls1 rule: fire.induct)
  case (1 sid error w)
  then show ?case by (simp add: quiet_refl)
next
  case (2 sid error w st subscriber sls)
  then show ?case
    by (auto split: if_splits prod.splits dest: quiet_subscribe_callback)
next
  case (3 sid error w p sls)
  then show ?case
    by (auto split: prod.splits)
qed

lemma fire_rejections:
  "fire sid err w sls = (w1, sls1) \<Longrightarrow> set (rejections sls) \<subseteq> set (rejections sls1)"
proof (induction sid err w sls arbitrary: w1 sls1 rule: fire.induct)
  case (1 sid error w)
  then show ?case by simp
next
  case (2 sid error w st subscriber sls)
  then show ?case
    by (auto simp add: rejections_def List.map_filter_simps
        split: if_splits prod.splits promise.splits)
next
  case (3 sid error w p sls)
  then show ?case
    by (auto simp add: rejections_def List.map_filter_simps split: prod.splits promise.splits)
qed

lemma first_rejection_member:
  "first_rejection sls = Some e \<Longrightarrow> e \<in> set (rejections sls)"
  by (simp add: first_rejection_rejections split: list.splits)

lemma first_rejection_not_resolved:
  "first_rejection sls = Some e \<Longrightarrow> \<not> all_resolved sls"
  using all_resolved_no_rejections[of sls] first_rejection_member[of sls e] by auto

lemma settle_check_establishes:
  assumes "\<not> run_handled r" and "run_result r = Pending"
    and "accPack (run_world r) = bus" and "active (run_world r) = act"
    and "trace (run_world r) = b @ t" and "\<not> startCall_emitted t"
  shows "run_inv b act bus (settle_check r)"
proof (cases "first_rejection (run_slots r)")
  case (Some e)
  have sc: "settle_check r =
      r\<lparr>run_world := logging_message (failed_message e) (run_world r), run_handled := True\<rparr>"
    using assms(1) Some by (simp add: settle_check_def)
  have logged: "failure_logged (run_slots r) (t @ [LogMessage (failed_message e)])"
    using first_rejection_member[OF Some] by (auto simp add: failure_logged_def list_ex_iff)
  have "trace (logging_message (failed_message e) (run_world r)) =
      b @ (t @ [LogMessage (failed_message e)])"
    using assms(5) by (simp add: logging_defs)
  with logged show ?thesis
    unfolding run_inv_def sc
    using assms Some first_rejection_not_resolved[OF Some]
    by (auto simp add: logging_defs)
next
  case None
  show ?thesis
  proof (cases "all_resolved (run_slots r)")
    case False
    with None assms(1) have "settle_check r = r"
      by (simp add: settle_check_def)
    with None False assms show ?thesis
      by (auto simp add: run_inv_def)
  next
    case True
    show ?thesis
    proof (cases bus)
      case bus: None
      let ?w1 = "logging_message (failed_message (typeError ''accPack'')) (run_world r)"
      have "on_all_resolved (run_world r) = (?w1, Pending)"
        using bus assms(3) by (simp add: on_all_resolved_def Let_def triggerEvent_def)
      then have sc: "settle_check r = r\<lparr>run_world := ?w1, run_handled := True, run_result := Pending\<rparr>"
        using assms(1) None True by (simp add: settle_check_def)
      have "trace ?w1 = b @ (t @ [LogMessage (failed_message (typeError ''accPack''))])"
        using assms(5) by (simp add: logging_defs)
      then show ?thesis
        unfolding run_inv_def sc
        using assms None True bus
        by (auto simp add: logging_defs)
    next
      case (Some a)
      let ?ps = "getPubSub (registry (run_world r))"
      let ?w1 = "(emit (Event ''startCall'' (PubSubData ?ps)) (run_world r))\<lparr>active := True\<rparr>"
      have "on_all_resolved (run_world r) = (?w1, Resolved ?ps)"
        using Some assms(3) by (simp add: on_all_resolved_def Let_def triggerEvent_def)
      then have sc: "settle_check r =
          r\<lparr>run_world := ?w1, run_handled := True, run_result := Resolved ?ps\<rparr>"
        using assms(1) None True by (simp add: settle_check_def)
      have "trace ?w1 = b @ (t @ [Event ''startCall'' (PubSubData ?ps)])"
        using assms(5) by (simp add: emit_def)
      then show ?thesis
        unfolding run_inv_def sc
        using assms None True Some
        by (auto simp add: emit_def)
    qed
  qed
qed

lemma failure_logged_mono:
  "failure_logged sls t \<Longrightarrow> set (rejections sls) \<subseteq> set (rejections sls1) \<Longrightarrow>
   failure_logged sls1 (t @ u)"
  by (auto simp add: failure_logged_def list_ex_iff)

lemma deliver_inv:
  assumes "run_inv b act bus r"
  shows "run_inv b act bus (deliver c r)"
proof -
  obtain w1 sls1 where f: "fire (fst c) (snd c) (run_world r) (run_slots r) = (w1, sls1)"
    by (cases "fire (fst c) (snd c) (run_world r) (run_slots r)")
  let ?r1 = "r\<lparr>run_world := w1, run_slots := sls1\<rparr>"
  have d: "deliver c r = settle_check ?r1"
    using f by (simp add: deliver_def)
  from fire_quiet[OF f] obtain u where
    bus1: "accPack w1 = accPack (run_world r)" and act1: "active w1 = active (run_world r)" and
    tr1: "trace w1 = trace (run_world r) @ u" and u: "\<not> startCall_emitted u"
    by (auto simp add: quiet_def)
  note rej = fire_rejections[OF f]
  from assms obtain t where
    bus: "accPack (run_world r) = bus" and
    handled: "run_handled r =
      (first_rejection (run_slots r) \<noteq> None \<or> all_resolved (run_slots r))" and
    tr: "trace (run_world r) = b @ t" and
    logged: "first_rejection (run_slots r) \<noteq> None \<longrightarrow> failure_logged (run_slots r) t" and
    res: "case run_result r of
             Pending \<Rightarrow>
               active (run_world r) = act \<and> \<not> startCall_emitted t \<and>
               (all_resolved (run_slots r) \<longrightarrow> bus = None)
           | Resolved ps \<Rightarrow>
               all_resolved (run_slots r) \<and> active (run_world r) \<and>
               ps = getPubSub (registry (run_world r)) \<and>
               t \<noteq> [] \<and> last t = Event ''startCall'' (PubSubData ps)
           | Rejected e \<Rightarrow> False"
    by (auto simp add: run_inv_def)
  show ?thesis
  proof (cases "all_resolved (run_slots r)")
    case True
    then have same: "w1 = run_world r \<and> sls1 = run_slots r"
      using f fire_all_resolved[of "run_slots r" "fst c" "snd c" "run_world r"] by simp
    have "run_handled r" using handled True by simp
    with same d have "deliver c r = r"
      by (simp add: settle_check_def)
    with assms show ?thesis by simp
  next
    case False
    then have pending: "run_result r = Pending"
      using res by (cases "run_result r") simp_all
    with res have act0: "active (run_world r) = act" and quiet0: "\<not> startCall_emitted t"
      by simp_all
    show ?thesis
    proof (cases "run_handled r")
      case True
      with handled False obtain e where e: "first_rejection (run_slots r) = Some e"
        by auto
      from first_rejection_member[OF e] rej have in1: "e \<in> set (rejections sls1)"
        by auto
      then have rej1: "first_rejection sls1 \<noteq> None"
        by (auto simp add: first_rejection_rejections split: list.splits)
      then have nres1: "\<not> all_resolved sls1"
        using first_rejection_not_resolved by auto
      have logged1: "failure_logged sls1 (t @ u)"
        using logged e rej by (auto intro: failure_logged_mono)
      have "settle_check ?r1 = ?r1"
        using True by (simp add: settle_check_def)
      with d have "deliver c r = ?r1" by simp
      then show ?thesis
        unfolding run_inv_def
        using True bus bus1 act1 act0 tr tr1 u quiet0 rej1 nres1 logged1 pending
        by auto
    next
      case False
      have "run_inv b act bus (settle_check ?r1)"
      proof (rule settle_check_establishes)
        show "\<not> run_handled ?r1" using False by simp
        show "run_result ?r1 = Pending" using pending by simp
        show "accPack (run_world ?r1) = bus" using bus bus1 by simp
        show "active (run_world ?r1) = act" using act0 act1 by simp
        show "trace (run_world ?r1) = b @ (t @ u)" using tr tr1 by simp
        show "\<not> startCall_emitted (t @ u)" using quiet0 u by simp
      qed
      with d show ?thesis by simp
    qed
  qed
qed

lemma fold_deliver_inv:
  "run_inv b act bus r \<Longrightarrow> run_inv b act bus (fold deliver cs r)"
  by (induction cs arbitrary: r) (auto intro: deliver_inv)

lemma subscribe_initial_inv:
  "run_inv (trace w) (active w) (accPack w) (subscribe_initial env w)"
proof -
  obtain w1 sls where i: "issue_all env (obj_values (streams (registry w))) w = (w1, sls)"
    by (cases "issue_all env (obj_values (streams (registry w))) w")
  let ?r0 = "\<lparr>run_world = w1, run_slots = sls, run_handled = False, run_result = Pending\<rparr>"
  from quiet_issue_all[OF i] obtain t where
    q: "accPack w1 = accPack w" "active w1 = active w" "trace w1 = trace w @ t"
      "\<not> startCall_emitted t"
    by (auto simp add: quiet_def)
  have "run_inv (trace w) (active w) (accPack w) (settle_check ?r0)"
    by (rule settle_check_establishes[where t = t]) (use q in simp_all)
  then have "run_inv (trace w) (active w) (accPack w) (fold deliver (completions env) (settle_check ?r0))"
    by (rule fold_deliver_inv)
  with i show ?thesis
    by (simp add: subscribe_initial_def Let_def)
qed

lemma quiet_publish: "quiet w (fst (publish env w))"
  by (auto simp add: publish_def createPublisher_def publish_catch_def Let_def logging_defs
      triggerEvent_def quiet_def emit_def split: option.splits sum.splits)

lemma failure_logged_earlier: "failure_logged sls t \<Longrightarrow> failure_logged sls (u @ t)"
  by (auto simp add: failure_logged_def list_ex_iff)

text \<open>
  C1, as the code has it. In a call of \<open>startCall\<close> that passes the limit check and whose
  publish resolves, the promise is never rejected. When it resolves, every initial
  subscription is resolved, the value is the publisher/subscriber state, the active flag is
  set, and the \<open>startCall\<close> event with that state is the last effect of the call, after
  everything the subscriptions did. When it does not resolve, no \<open>startCall\<close> event was
  emitted and the active flag is unchanged; this happens only if not every subscription
  resolved (or the module has no event bus). A rejected subscription is logged with the
  message \<open>Failed to subscribe to all existing streams\<close>.
\<close>

theorem startCall_after_all_subscriptions:
  assumes "ableToJoin w" and "snd (publish env w) = Resolved ()"
  shows "(case snd (startCall env w) of
            Resolved ps \<Rightarrow>
              all_resolved (initial_subscriptions env w) \<and>
              ps = getPubSub (registry (fst (startCall env w))) \<and>
              last (trace (fst (startCall env w))) = Event ''startCall'' (PubSubData ps) \<and>
              active (fst (startCall env w))
          | Pending \<Rightarrow>
              (all_resolved (initial_subscriptions env w) \<longrightarrow> accPack w = None) \<and>
              active (fst (startCall env w)) = active w \<and>
              \<not> startCall_emitted (effects_since w (fst (startCall env w)))
          | Rejected e \<Rightarrow> False) \<and>
         (first_rejection (initial_subscriptions env w) \<noteq> None \<longrightarrow>
            failure_logged (initial_subscriptions env w)
              (effects_since w (fst (startCall env w))))"
proof -
  let ?w0 = "logging_log LogStartCall Attempt w"
  have "snd (publish env ?w0) = Resolved ()"
    using assms(2) by (simp add: publish_log)
  then obtain w2 where pub: "publish env ?w0 = (w2, Resolved ())"
    by (cases "publish env ?w0") simp
  then have w2: "fst (publish env ?w0) = w2"
    by simp
  let ?r = "subscribe_initial env w2"
  have call: "startCall env w = (run_world ?r, run_result ?r)"
    using assms(1) pub by (simp add: startCall_def Let_def ableToJoin_log)
  have slots: "initial_subscriptions env w = run_slots ?r"
    by (simp add: initial_subscriptions_def w2)
  have "quiet w ?w0"
    by (simp add: logging_defs quiet_emit)
  from quiet_trans[OF this quiet_publish[of ?w0 env]] w2 obtain t0 where
    bus: "accPack w2 = accPack w" and act: "active w2 = active w" and
    tr0: "trace w2 = trace w @ t0" and q0: "\<not> startCall_emitted t0"
    by (auto simp add: quiet_def)
  from subscribe_initial_inv[of w2 env] obtain t where
    tr: "trace (run_world ?r) = trace w2 @ t" and
    logged: "first_rejection (run_slots ?r) \<noteq> None \<longrightarrow> failure_logged (run_slots ?r) t" and
    res: "case run_result ?r of
             Pending \<Rightarrow>
               active (run_world ?r) = active w2 \<and> \<not> startCall_emitted t \<and>
               (all_resolved (run_slots ?r) \<longrightarrow> accPack w2 = None)
           | Resolved ps \<Rightarrow>
               all_resolved (run_slots ?r) \<and> active (run_world ?r) \<and>
               ps = getPubSub (registry (run_world ?r)) \<and>
               t \<noteq> [] \<and> last t = Event ''startCall'' (PubSubData ps)
           | Rejected e \<Rightarrow> False"
    by (auto simp add: run_inv_def)
  have since: "effects_since w (run_world ?r) = t0 @ t"
    using tr tr0 by (simp add: effects_since_def)
  have first: "case run_result ?r of
            Resolved ps \<Rightarrow>
              all_resolved (run_slots ?r) \<and>
              ps = getPubSub (registry (run_world ?r)) \<and>
              last (trace (run_world ?r)) = Event ''startCall'' (PubSubData ps) \<and>
              active (run_world ?r)
          | Pending \<Rightarrow>
              (all_resolved (run_slots ?r) \<longrightarrow> accPack w = None) \<and>
              active (run_world ?r) = active w \<and>
              \<not> startCall_emitted (t0 @ t)
          | Rejected e \<Rightarrow> False"
    using res tr bus act q0 by (cases "run_result ?r") auto
  have second: "first_rejection (run_slots ?r) \<noteq> None \<longrightarrow> failure_logged (run_slots ?r) (t0 @ t)"
    using logged by (auto intro: failure_logged_earlier)
  from first second show ?thesis
    by (auto simp add: call slots since split: promise.splits)
qed

theorem startCall_after_all_subscriptions_witness:
  "ableToJoin camera_and_screen \<and> snd (publish sdk_ok camera_and_screen) = Resolved () \<and>
   snd (startCall sdk_ok camera_and_screen) =
     Resolved (getPubSub (registry (fst (startCall sdk_ok camera_and_screen)))) \<and>
   all_resolved (initial_subscriptions sdk_ok camera_and_screen) \<and>
   last (trace (fst (startCall sdk_ok camera_and_screen))) =
     Event ''startCall''
       (PubSubData (getPubSub (registry (fst (startCall sdk_ok camera_and_screen))))) \<and>
   active (fst (startCall sdk_ok camera_and_screen)) \<and>
   snd (publish sdk_camera_fails camera_and_screen) = Resolved () \<and>
   first_rejection (initial_subscriptions sdk_camera_fails camera_and_screen) \<noteq> None \<and>
   failure_logged (initial_subscriptions sdk_camera_fails camera_and_screen)
     (effects_since camera_and_screen (fst (startCall sdk_camera_fails camera_and_screen)))"
proof -
  have h1: "ableToJoin camera_and_screen" by code_simp
  have h2: "snd (publish sdk_ok camera_and_screen) = Resolved ()" by code_simp
  have r: "snd (startCall sdk_ok camera_and_screen) =
      Resolved (getPubSub (registry (fst (startCall sdk_ok camera_and_screen))))"
    by code_simp
  have h3: "snd (publish sdk_camera_fails camera_and_screen) = Resolved ()" by code_simp
  have f: "first_rejection (initial_subscriptions sdk_camera_fails camera_and_screen) \<noteq> None"
    by code_simp
  show ?thesis
    using h1 h2 r h3 f
      startCall_after_all_subscriptions [OF h1 h2]
      startCall_after_all_subscriptions [OF h1 h3]
    by simp
qed

text \<open>
  C1 as stated fails when a subscription fails. Of the two initial subscriptions, the SDK
  completes the one of the screen and fails the one of the camera: both have settled, the
  failure is logged, but no \<open>startCall\<close> event is emitted, the promise of \<open>startCall\<close>
  stays pending and the active flag stays false.
\<close>

theorem startCall_silent_after_failed_subscription:
  "ableToJoin camera_and_screen \<and>
   snd (publish sdk_camera_fails camera_and_screen) = Resolved () \<and>
   initial_subscriptions sdk_camera_fails camera_and_screen =
     [Settled (Rejected (JsError ''OT_Error'' (Some 1501) ''Subscribe failed'')),
      Settled (Resolved ())] \<and>
   snd (startCall sdk_camera_fails camera_and_screen) = Pending \<and>
   \<not> startCall_emitted (trace (fst (startCall sdk_camera_fails camera_and_screen))) \<and>
   \<not> active (fst (startCall sdk_camera_fails camera_and_screen)) \<and>
   last (trace (fst (startCall sdk_camera_fails camera_and_screen))) =
     LogMessage ''Failed to subscribe to all existing streams: OT_Error: Subscribe failed''"
  by code_simp

end
